theory Spec2Isabelle
  imports Main "HOL-Library.Word"
begin

unbundle bit_operations_syntax

section \<open>Data model\<close>

text \<open>
  Bytes are unsigned 8-bit words (the sources compare them as \<^verbatim>\<open>unsigned char\<close>).
  Addresses are natural numbers, \<open>0\<close> being \<^verbatim>\<open>nullptr\<close>. Values of
  \<^verbatim>\<open>size_type\<close> are natural numbers below \<open>2 ^ 64\<close>. \<^verbatim>\<open>_calculate_new_capacity\<close>,
  whose shifts depend on the width, is computed on 64-bit words, and the additions and
  subtractions that can leave the range (the size of an allocation request, a capacity
  plus the terminator; the decrement of a size) are written with their wrap-around. The
  other sums stay in range for strings that fit in memory.
\<close>

type_synonym byte = "8 word"
type_synonym ptr = nat

text \<open>
  The calls that reach the allocation layer, and the block-to-block copies of the string
  engine, are recorded in the order in which the code performs them.
\<close>

datatype event =
    Allocate nat ptr
  | Deallocate ptr nat
  | Memcpy ptr ptr nat

text \<open>
  \<^verbatim>\<open>struct TlsFreeLists { uint8_t counts[7]; void* slots[7][8]; }\<close>. The fixed arrays
  are functions of their indices.
\<close>

record TlsFreeLists =
  counts :: "nat \<Rightarrow> nat"
  slots :: "nat \<Rightarrow> nat \<Rightarrow> ptr"

text \<open>
  The machine: the thread's free lists, the bytes of every block the platform allocator
  has handed out and not taken back, the next address the platform allocator hands out,
  the byte read from memory never written, and the recorded events.
\<close>

record machine =
  tls :: TlsFreeLists
  blocks :: "ptr \<rightharpoonup> byte list"
  next_block :: ptr
  junk :: byte
  events :: "event list"

section \<open>Block recycler (alloc\_hooks.hpp)\<close>

definition MAX_POOL_SIZE :: nat where
  "MAX_POOL_SIZE = 4096"

definition POOL_CLASSES :: "nat list" where
  "POOL_CLASSES = [64, 128, 256, 512, 1024, 2048, 4096]"

definition POOL_SLAB_DEPTH :: nat where
  "POOL_SLAB_DEPTH = 8"

text \<open>The loop of \<^verbatim>\<open>pool_class_index\<close> over the table, from index \<open>i\<close>.\<close>

fun pool_class_scan :: "nat \<Rightarrow> nat \<Rightarrow> nat list \<Rightarrow> int" where
  "pool_class_scan n i [] = - 1"
| "pool_class_scan n i (c # cs) = (if n \<le> c then int i else pool_class_scan n (Suc i) cs)"

definition pool_class_index :: "nat \<Rightarrow> int" where
  "pool_class_index n = pool_class_scan n 0 POOL_CLASSES"

definition pool_alloc_usable_capacity :: "nat \<Rightarrow> nat" where
  "pool_alloc_usable_capacity raw_size =
     (let idx = pool_class_index raw_size
      in if idx \<ge> 0 then POOL_CLASSES ! nat idx - 1 else raw_size - 1)"

text \<open>
  The platform allocator (\<^verbatim>\<open>malloc\<close>/\<^verbatim>\<open>free\<close>) hands out a fresh block of
  \<open>n\<close> unwritten bytes at the next address; exhaustion of memory is not modelled.
\<close>

definition allocate_aligned_unpooled :: "nat \<Rightarrow> nat \<Rightarrow> machine \<Rightarrow> ptr \<times> machine" where
  "allocate_aligned_unpooled n align m =
     (if n = 0 then (0, m)
      else (next_block m,
            m\<lparr>blocks := (blocks m)(next_block m \<mapsto> replicate n (junk m)),
              next_block := Suc (next_block m)\<rparr>))"

definition deallocate_aligned_unpooled :: "ptr \<Rightarrow> nat \<Rightarrow> nat \<Rightarrow> machine \<Rightarrow> machine" where
  "deallocate_aligned_unpooled p n align m =
     (if p = 0 then m else m\<lparr>blocks := (blocks m)(p := None)\<rparr>)"

definition default_allocate_aligned :: "nat \<Rightarrow> nat \<Rightarrow> machine \<Rightarrow> ptr \<times> machine" where
  "default_allocate_aligned n align m =
     (if n = 0 then (0, m)
      else let idx = pool_class_index n in
        if idx < 0 then allocate_aligned_unpooled n align m
        else let t = tls m in
          if counts t (nat idx) > 0 then
            (let c = counts t (nat idx) - 1;
                 p = slots t (nat idx) c
             in (p, m\<lparr>tls := t\<lparr>counts := (counts t)(nat idx := c)\<rparr>\<rparr>))
          else allocate_aligned_unpooled (POOL_CLASSES ! nat idx) align m)"

definition default_deallocate_aligned :: "ptr \<Rightarrow> nat \<Rightarrow> nat \<Rightarrow> machine \<Rightarrow> machine" where
  "default_deallocate_aligned p n align m =
     (if p = 0 then m
      else let idx = pool_class_index n in
        if idx < 0 then deallocate_aligned_unpooled p n align m
        else let t = tls m in
          if counts t (nat idx) < POOL_SLAB_DEPTH then
            (let c = counts t (nat idx)
             in m\<lparr>tls := t\<lparr>slots := (slots t)(nat idx := (slots t (nat idx))(c := p)),
                            counts := (counts t)(nat idx := Suc c)\<rparr>\<rparr>)
          else deallocate_aligned_unpooled p n align m)"

text \<open>
  \<^verbatim>\<open>allocate_bytes_aligned\<close> and \<^verbatim>\<open>deallocate_bytes_aligned\<close> with no custom hooks
  installed (\<^verbatim>\<open>_hooks_active()\<close> false): the default path.
\<close>

definition DEFAULT_ALIGNMENT :: nat where
  "DEFAULT_ALIGNMENT = 16"

definition preferred_alloc_alignment :: nat where
  "preferred_alloc_alignment = DEFAULT_ALIGNMENT"

definition allocate_bytes_aligned :: "nat \<Rightarrow> nat \<Rightarrow> machine \<Rightarrow> ptr \<times> machine" where
  "allocate_bytes_aligned n align m =
     (let (p, m') = default_allocate_aligned n align m
      in (p, m'\<lparr>events := events m' @ [Allocate n p]\<rparr>))"

definition deallocate_bytes_aligned :: "ptr \<Rightarrow> nat \<Rightarrow> nat \<Rightarrow> machine \<Rightarrow> machine" where
  "deallocate_bytes_aligned p n align m =
     (let m' = default_deallocate_aligned p n align m
      in m'\<lparr>events := events m' @ [Deallocate p n]\<rparr>)"

text \<open>A thread that has not allocated yet: zero-initialised free lists, no block.\<close>

definition fresh_machine :: machine where
  "fresh_machine = \<lparr>tls = \<lparr>counts = (\<lambda>_. 0), slots = (\<lambda>_ _. 0)\<rparr>, blocks = Map.empty,
                     next_block = 1, junk = 0xCD, events = []\<rparr>"

section \<open>Growth arithmetic (string.hpp)\<close>

text \<open>\<^verbatim>\<open>_calculate_new_capacity\<close> on a 64-bit \<^verbatim>\<open>size_type\<close>.\<close>

definition calculate_new_capacity :: "64 word \<Rightarrow> 64 word" where
  "calculate_new_capacity min_capacity =
     (if min_capacity < 32 then 32
      else let cap = min_capacity;
               cap = cap OR drop_bit 1 cap;
               cap = cap OR drop_bit 2 cap;
               cap = cap OR drop_bit 4 cap;
               cap = cap OR drop_bit 8 cap;
               cap = cap OR drop_bit 16 cap;
               cap = cap OR drop_bit 32 cap
           in cap)"

section \<open>String storage engine (string.hpp)\<close>

definition SSO_CAPACITY :: nat where
  "SSO_CAPACITY = 23"

definition SSO_THRESHOLD :: nat where
  "SSO_THRESHOLD = SSO_CAPACITY + 1"

definition fits_in_sso :: "nat \<Rightarrow> bool" where
  "fits_in_sso n \<longleftrightarrow> n < SSO_THRESHOLD"

definition HEAP_ALLOCATED_FLAG :: "8 word" where
  "HEAP_ALLOCATED_FLAG = 0x01"

definition npos :: nat where
  "npos = 2 ^ 64 - 1"

text \<open>
  \<^verbatim>\<open>std::out_of_range\<close> with its message. The members declared \<^verbatim>\<open>noexcept\<close> have no
  branch that raises; the position-taking mutators among them are still given the result
  type of the throwing members, so that what they return can be compared with a failure.
\<close>

datatype error = out_of_range string

text \<open>
  The fields of \<^verbatim>\<open>fl::string\<close>. The two arms of \<^verbatim>\<open>union StorageData\<close> are kept
  side by side; the code reads the arm that \<^verbatim>\<open>_flags\<close> selects, and copies the
  union as a whole when it moves.
\<close>

record fl_string =
  data_sso :: "byte list"
  data_heap_ptr :: ptr
  data_heap_capacity :: nat
  str_size :: nat
  str_flags :: "8 word"

text \<open>
  Buffers are lists of bytes. \<open>memcpy dst off src n\<close> is
  \<^verbatim>\<open>memcpy(dst + off, src, n)\<close> and \<open>memmove buf d s n\<close> is
  \<^verbatim>\<open>memmove(buf + d, buf + s, n)\<close>. An access outside a buffer is undefined
  behaviour in the source; the list operations then truncate (\<open>take\<close>, \<open>drop\<close>) or
  leave the list as it is (list update). A store through \<^verbatim>\<open>nullptr\<close>, which the code
  reaches when a request of 0 bytes is answered with \<^verbatim>\<open>nullptr\<close>, is undefined
  behaviour too; the model stores at address 0 there.
\<close>

definition memcpy :: "byte list \<Rightarrow> nat \<Rightarrow> byte list \<Rightarrow> nat \<Rightarrow> byte list" where
  "memcpy dst off src n = take off dst @ take n src @ drop (off + n) dst"

definition memmove :: "byte list \<Rightarrow> nat \<Rightarrow> nat \<Rightarrow> nat \<Rightarrow> byte list" where
  "memmove buf d s n = memcpy buf d (drop s buf) n"

text \<open>
  \<^verbatim>\<open>copy_small\<close> (through \<^verbatim>\<open>copy_sso\<close>) and \<^verbatim>\<open>copy_heap_hot\<close> store the
  first \<open>n\<close> bytes of the source with loads and stores of fixed widths; byte for byte
  they are a \<^verbatim>\<open>memcpy\<close>.
\<close>

definition copy_sso :: "byte list \<Rightarrow> byte list \<Rightarrow> nat \<Rightarrow> byte list" where
  "copy_sso dst src n = (if n = 0 then dst else memcpy dst 0 src n)"

definition copy_heap_hot :: "byte list \<Rightarrow> byte list \<Rightarrow> nat \<Rightarrow> byte list" where
  "copy_heap_hot dst src n = memcpy dst 0 src n"

definition block :: "machine \<Rightarrow> ptr \<Rightarrow> byte list" where
  "block m p = (case blocks m p of Some b \<Rightarrow> b | None \<Rightarrow> [])"

definition write_block :: "ptr \<Rightarrow> byte list \<Rightarrow> machine \<Rightarrow> machine" where
  "write_block p b m = m\<lparr>blocks := (blocks m)(p \<mapsto> b)\<rparr>"

text \<open>\<^verbatim>\<open>memcpy(dst, src, n)\<close> from one heap block to another.\<close>

definition memcpy_blocks :: "ptr \<Rightarrow> ptr \<Rightarrow> nat \<Rightarrow> machine \<Rightarrow> machine" where
  "memcpy_blocks dst src n m =
     (let m' = write_block dst (memcpy (block m dst) 0 (block m src) n) m
      in m'\<lparr>events := events m' @ [Memcpy dst src n]\<rparr>)"

definition is_heap_allocated :: "fl_string \<Rightarrow> bool" where
  "is_heap_allocated s \<longleftrightarrow> str_flags s AND HEAP_ALLOCATED_FLAG \<noteq> 0"

text \<open>
  The bytes at \<^verbatim>\<open>_data_ptr()\<close> (equally \<^verbatim>\<open>_data_ptr_mutable()\<close> and
  \<^verbatim>\<open>_mutable_storage().data()\<close>), and a store through that pointer.
\<close>

definition storage :: "machine \<Rightarrow> fl_string \<Rightarrow> byte list" where
  "storage m s = (if is_heap_allocated s then block m (data_heap_ptr s) else data_sso s)"

definition set_storage :: "byte list \<Rightarrow> fl_string \<times> machine \<Rightarrow> fl_string \<times> machine" where
  "set_storage b sm =
     (let (s, m) = sm
      in if is_heap_allocated s then (s, write_block (data_heap_ptr s) b m)
         else (s\<lparr>data_sso := b\<rparr>, m))"

text \<open>The logical content: the first \<^verbatim>\<open>_size\<close> bytes of the active buffer.\<close>

definition string_bytes :: "machine \<Rightarrow> fl_string \<Rightarrow> byte list" where
  "string_bytes m s = take (str_size s) (storage m s)"

definition string_size :: "fl_string \<Rightarrow> nat" where
  "string_size s = str_size s"

definition string_capacity :: "fl_string \<Rightarrow> nat" where
  "string_capacity s = (if is_heap_allocated s then data_heap_capacity s else SSO_CAPACITY)"

definition string_allocate_heap :: "nat \<Rightarrow> fl_string \<times> machine \<Rightarrow> fl_string \<times> machine" where
  "string_allocate_heap min_capacity sm =
     (let (s, m) = sm;
          new_capacity = unat (calculate_new_capacity (word_of_nat min_capacity));
          align = preferred_alloc_alignment;
          alloc_n = (new_capacity + 1) mod 2 ^ 64;
          (p, m') = allocate_bytes_aligned alloc_n align m
      in (s\<lparr>data_heap_ptr := p,
             data_heap_capacity := pool_alloc_usable_capacity alloc_n,
             str_flags := str_flags s OR HEAP_ALLOCATED_FLAG\<rparr>, m'))"

definition string_allocate_heap_exact :: "nat \<Rightarrow> fl_string \<times> machine \<Rightarrow> fl_string \<times> machine" where
  "string_allocate_heap_exact exact_capacity sm =
     (let (s, m) = sm;
          align = preferred_alloc_alignment;
          alloc_n = (exact_capacity + 1) mod 2 ^ 64;
          (p, m') = allocate_bytes_aligned alloc_n align m
      in (s\<lparr>data_heap_ptr := p,
             data_heap_capacity := pool_alloc_usable_capacity alloc_n,
             str_flags := str_flags s OR HEAP_ALLOCATED_FLAG\<rparr>, m'))"

text \<open>\<^verbatim>\<open>string()\<close> and \<^verbatim>\<open>string(const char* cstr, size_type len)\<close>.\<close>

definition string_default :: "machine \<Rightarrow> fl_string" where
  "string_default m =
     \<lparr>data_sso = (replicate (SSO_CAPACITY + 1) (junk m))[0 := 0], data_heap_ptr = 0,
      data_heap_capacity = 0, str_size = 0, str_flags = 0\<rparr>"

definition string_from :: "byte list \<Rightarrow> nat \<Rightarrow> machine \<Rightarrow> fl_string \<times> machine" where
  "string_from cstr len m =
     (let s = \<lparr>data_sso = replicate (SSO_CAPACITY + 1) (junk m), data_heap_ptr = 0,
               data_heap_capacity = 0, str_size = 0, str_flags = 0\<rparr>
      in if len > 0 then
           if fits_in_sso len then
             (s\<lparr>data_sso := (copy_sso (data_sso s) cstr len)[len := 0], str_size := len\<rparr>, m)
           else
             (let (s1, m1) = string_allocate_heap_exact len (s, m);
                  m2 = write_block (data_heap_ptr s1)
                         ((copy_heap_hot (block m1 (data_heap_ptr s1)) cstr len)[len := 0]) m1
              in (s1\<lparr>str_size := len\<rparr>, m2))
         else (s\<lparr>data_sso := (data_sso s)[0 := 0]\<rparr>, m))"

text \<open>\<^verbatim>\<open>string(string&& other)\<close>: the new value and what is left of \<open>other\<close>.\<close>

definition string_move :: "fl_string \<Rightarrow> fl_string \<times> fl_string" where
  "string_move other =
     (\<lparr>data_sso = data_sso other, data_heap_ptr = data_heap_ptr other,
       data_heap_capacity = data_heap_capacity other,
       str_size = str_size other, str_flags = str_flags other\<rparr>,
      other\<lparr>str_size := 0, str_flags := 0, data_sso := (data_sso other)[0 := 0]\<rparr>)"

text \<open>\<^verbatim>\<open>~string()\<close>.\<close>

definition string_destroy :: "fl_string \<Rightarrow> machine \<Rightarrow> machine" where
  "string_destroy s m =
     (if is_heap_allocated s then
        deallocate_bytes_aligned (data_heap_ptr s) (data_heap_capacity s + 1)
          preferred_alloc_alignment m
      else m)"

definition string_grow_to :: "nat \<Rightarrow> fl_string \<times> machine \<Rightarrow> fl_string \<times> machine" where
  "string_grow_to min_capacity sm =
     (let (s, m) = sm
      in if min_capacity \<le> string_capacity s then (s, m)
      else if \<not> is_heap_allocated s then
        (let new_capacity = unat (calculate_new_capacity (word_of_nat min_capacity));
             align = preferred_alloc_alignment;
             alloc_n = (new_capacity + 1) mod 2 ^ 64;
             (new_ptr, m1) = allocate_bytes_aligned alloc_n align m;
             m2 = write_block new_ptr
                    ((copy_sso (block m1 new_ptr) (data_sso s) (str_size s))[str_size s := 0]) m1
         in (s\<lparr>data_heap_ptr := new_ptr,
                data_heap_capacity := pool_alloc_usable_capacity alloc_n,
                str_flags := str_flags s OR HEAP_ALLOCATED_FLAG\<rparr>, m2))
      else
        (let new_capacity = unat (calculate_new_capacity (word_of_nat min_capacity));
             align = preferred_alloc_alignment;
             alloc_n = (new_capacity + 1) mod 2 ^ 64;
             old_ptr = data_heap_ptr s;
             old_alloc_n = data_heap_capacity s + 1;
             (new_ptr, m1) = allocate_bytes_aligned alloc_n align m;
             m2 = memcpy_blocks new_ptr old_ptr (str_size s) m1;
             m3 = write_block new_ptr ((block m2 new_ptr)[str_size s := 0]) m2;
             m4 = deallocate_bytes_aligned old_ptr old_alloc_n align m3
         in (s\<lparr>data_heap_ptr := new_ptr,
                data_heap_capacity := pool_alloc_usable_capacity alloc_n\<rparr>, m4)))"

definition string_shrink_to_fit :: "fl_string \<times> machine \<Rightarrow> fl_string \<times> machine" where
  "string_shrink_to_fit sm =
     (let (s, m) = sm
      in if is_heap_allocated s \<and> str_size s < data_heap_capacity s then
           if fits_in_sso (str_size s) then
             (let temp = copy_sso (replicate (SSO_CAPACITY + 1) 0) (block m (data_heap_ptr s))
                           (str_size s);
                  align = preferred_alloc_alignment;
                  m1 = deallocate_bytes_aligned (data_heap_ptr s) (data_heap_capacity s + 1)
                         align m
              in (s\<lparr>data_sso := (copy_sso (data_sso s) temp (str_size s))[str_size s := 0],
                     str_flags := 0\<rparr>, m1))
           else
             (let align = preferred_alloc_alignment;
                  (new_ptr, m1) = allocate_bytes_aligned (str_size s + 1) align m;
                  m2 = memcpy_blocks new_ptr (data_heap_ptr s) (str_size s) m1;
                  m3 = write_block new_ptr ((block m2 new_ptr)[str_size s := 0]) m2;
                  m4 = deallocate_bytes_aligned (data_heap_ptr s) (data_heap_capacity s + 1)
                         align m3
              in (s\<lparr>data_heap_ptr := new_ptr, data_heap_capacity := str_size s\<rparr>, m4))
         else (s, m))"

text \<open>
  \<^verbatim>\<open>_assign_impl(cstr, len)\<close>; the bytes at \<open>cstr\<close> are passed by value (a source
  range inside the string's own buffer is outside the contract of \<^verbatim>\<open>memcpy\<close>).
\<close>

definition string_assign_impl :: "byte list \<Rightarrow> nat \<Rightarrow> fl_string \<times> machine \<Rightarrow> fl_string \<times> machine" where
  "string_assign_impl cstr len sm =
     (let (s, m) = sm
      in if is_heap_allocated s \<and> data_heap_capacity s \<ge> len then
           (s\<lparr>str_size := len\<rparr>,
            write_block (data_heap_ptr s)
              ((copy_heap_hot (block m (data_heap_ptr s)) cstr len)[len := 0]) m)
         else
           (let (s, m) =
                  (if is_heap_allocated s then
                     (s\<lparr>str_flags := 0\<rparr>,
                      deallocate_bytes_aligned (data_heap_ptr s) (data_heap_capacity s + 1)
                        preferred_alloc_alignment m)
                   else (s, m))
            in if fits_in_sso len then
                 (s\<lparr>data_sso := (copy_sso (data_sso s) cstr len)[len := 0],
                    str_size := len, str_flags := 0\<rparr>, m)
               else
                 (let (s1, m1) = string_allocate_heap len (s, m);
                      m2 = write_block (data_heap_ptr s1)
                             ((copy_heap_hot (block m1 (data_heap_ptr s1)) cstr len)[len := 0]) m1
                  in (s1\<lparr>str_size := len\<rparr>, m2))))"

text \<open>\<^verbatim>\<open>assign(const char* cstr, size_type len)\<close>.\<close>

definition string_assign :: "byte list \<Rightarrow> nat \<Rightarrow> fl_string \<times> machine \<Rightarrow> fl_string \<times> machine" where
  "string_assign cstr len sm = string_assign_impl cstr len sm"

text \<open>
  The assignment operators compare the addresses of their two operands, so they are
  modelled on a table of string objects: \<open>this\<close> and \<open>other\<close> name objects, and may name
  the same one.
\<close>

type_synonym objects = "nat \<Rightarrow> fl_string"

definition string_copy_assign :: "nat \<Rightarrow> nat \<Rightarrow> objects \<times> machine \<Rightarrow> objects \<times> machine" where
  "string_copy_assign this other om =
     (let (objs, m) = om
      in if this \<noteq> other then
           (let (s, m') = string_assign_impl (storage m (objs other)) (str_size (objs other))
                            (objs this, m)
            in (objs(this := s), m'))
         else (objs, m))"

definition string_move_assign :: "nat \<Rightarrow> nat \<Rightarrow> objects \<times> machine \<Rightarrow> objects \<times> machine" where
  "string_move_assign this other om =
     (let (objs, m) = om
      in if this \<noteq> other then
           (let m1 = (if is_heap_allocated (objs this) then
                        deallocate_bytes_aligned (data_heap_ptr (objs this))
                          (data_heap_capacity (objs this) + 1) preferred_alloc_alignment m
                      else m);
                t = (objs this)\<lparr>str_size := str_size (objs other),
                                 str_flags := str_flags (objs other),
                                 data_sso := data_sso (objs other),
                                 data_heap_ptr := data_heap_ptr (objs other),
                                 data_heap_capacity := data_heap_capacity (objs other)\<rparr>;
                r = (objs other)\<lparr>str_size := 0, str_flags := 0,
                                  data_sso := (data_sso (objs other))[0 := 0]\<rparr>
            in (objs(this := t, other := r), m1))
         else (objs, m))"

text \<open>\<^verbatim>\<open>at(pos)\<close>, both overloads.\<close>

definition string_at :: "nat \<Rightarrow> fl_string \<Rightarrow> machine \<Rightarrow> error + byte" where
  "string_at pos s m =
     (if pos \<ge> str_size s then Inl (out_of_range ''fl::string::at'')
      else Inr (storage m s ! pos))"

text \<open>
  \<^verbatim>\<open>pop_back()\<close>; the decrement of the unsigned \<^verbatim>\<open>_size\<close> is written with its
  wrap-around.
\<close>

definition string_pop_back :: "fl_string \<times> machine \<Rightarrow> fl_string \<times> machine" where
  "string_pop_back sm =
     (let (s, m) = sm
      in if str_size s > 0 then
           (let s' = s\<lparr>str_size := (str_size s + 2 ^ 64 - 1) mod 2 ^ 64\<rparr>
            in set_storage ((storage m s')[str_size s' := 0]) (s', m))
         else (s, m))"

definition string_erase :: "nat \<Rightarrow> nat \<Rightarrow> fl_string \<times> machine \<Rightarrow> error + fl_string \<times> machine" where
  "string_erase pos len sm =
     (let (s, m) = sm
      in if pos \<ge> str_size s then Inr (s, m)
         else
           (let len = (if len = npos then str_size s - pos else min len (str_size s - pos))
            in if len = 0 then Inr (s, m)
               else
                 (let ptr = memmove (storage m s) pos (pos + len) (str_size s - pos - len);
                      s' = s\<lparr>str_size := str_size s - len\<rparr>
                  in Inr (set_storage (ptr[str_size s' := 0]) (s', m)))))"

definition string_insert :: "nat \<Rightarrow> byte list \<Rightarrow> nat \<Rightarrow> fl_string \<times> machine \<Rightarrow> error + fl_string \<times> machine" where
  "string_insert pos cstr len sm =
     (let (s, m) = sm
      in if len = 0 \<or> pos > str_size s then Inr (s, m)
         else
           (let new_size = str_size s + len;
                (s1, m1) = (if new_size \<ge> string_capacity s
                            then string_grow_to (new_size + new_size div 2) (s, m) else (s, m));
                ptr = memmove (storage m1 s1) (pos + len) pos (str_size s1 - pos);
                ptr = memcpy ptr pos cstr len;
                s2 = s1\<lparr>str_size := new_size\<rparr>
            in Inr (set_storage (ptr[str_size s2 := 0]) (s2, m1))))"

definition string_replace :: "nat \<Rightarrow> nat \<Rightarrow> byte list \<Rightarrow> nat \<Rightarrow> fl_string \<times> machine \<Rightarrow> error + fl_string \<times> machine" where
  "string_replace pos len cstr clen sm =
     (let (s, m) = sm
      in if pos > str_size s then Inr (s, m)
         else
           (let len = min len (str_size s - pos);
                new_size = str_size s - len + clen;
                (s1, m1) = (if new_size \<ge> string_capacity s
                            then string_grow_to (new_size + new_size div 2) (s, m) else (s, m));
                ptr = storage m1 s1;
                ptr = (if len \<noteq> clen
                       then memmove ptr (pos + clen) (pos + len) (str_size s1 - pos - len)
                       else ptr);
                ptr = memcpy ptr pos cstr clen;
                s2 = s1\<lparr>str_size := new_size\<rparr>
            in Inr (set_storage (ptr[str_size s2 := 0]) (s2, m1))))"

section \<open>Substring search (string.hpp)\<close>

text \<open>
  A search result: \<open>NotFound\<close> is \<^verbatim>\<open>nullptr\<close> for the matchers and \<^verbatim>\<open>npos\<close> for
  \<^verbatim>\<open>find\<close>; \<open>Found k\<close> is the offset \<open>k\<close> from the start of the searched range.
\<close>

datatype found = NotFound | Found nat

text \<open>
  \<^verbatim>\<open>memchr(p, c, n)\<close>: the offset of the first byte equal to \<open>c\<close> among the first
  \<open>n\<close> bytes at \<open>p\<close>. \<^verbatim>\<open>memcmp(a, b, n) == 0\<close>: the first \<open>n\<close> bytes agree.
\<close>

fun memchr :: "byte list \<Rightarrow> byte \<Rightarrow> nat \<Rightarrow> nat option" where
  "memchr [] c n = None"
| "memchr (b # bs) c n =
     (if n = 0 then None else if b = c then Some 0 else map_option Suc (memchr bs c (n - 1)))"

definition memcmp_eq :: "byte list \<Rightarrow> byte list \<Rightarrow> nat \<Rightarrow> bool" where
  "memcmp_eq a b n \<longleftrightarrow> take n a = take n b"

text \<open>
  The loop of \<^verbatim>\<open>two_way::max_suffix\<close> on its variables \<open>i\<close>, \<open>j\<close>, \<open>k\<close> and
  \<^verbatim>\<open>*period\<close>; the bytes compared are \<^verbatim>\<open>a = needle[j + k - 1]\<close> and
  \<^verbatim>\<open>b = needle[i + k - 1]\<close>. It returns \<open>i\<close> and the period.
\<close>

function max_suffix_loop :: "byte list \<Rightarrow> nat \<Rightarrow> nat \<Rightarrow> nat \<Rightarrow> nat \<Rightarrow> nat \<Rightarrow> nat \<times> nat" where
  "max_suffix_loop needle m i j k period =
     (if j + k \<le> m then
        (if needle ! (j + k - 1) < needle ! (i + k - 1)
         then max_suffix_loop needle m i (j + k) 1 (j + k - i)
         else if needle ! (j + k - 1) = needle ! (i + k - 1) then
           (if k = period then max_suffix_loop needle m i (j + period) 1 period
            else max_suffix_loop needle m i j (k + 1) period)
         else max_suffix_loop needle m j (j + 1) 1 1)
      else (i, period))"
  by pat_completeness auto
termination
  by (relation "measures [\<lambda>(needle, m, i, j, k, period). if i < j then 0 else 1,
                          \<lambda>(needle, m, i, j, k, period). m - i,
                          \<lambda>(needle, m, i, j, k, period). Suc m - (j + k)]") auto

declare max_suffix_loop.simps [simp del]

definition max_suffix :: "byte list \<Rightarrow> nat \<Rightarrow> nat \<times> nat" where
  "max_suffix needle m = max_suffix_loop needle m 0 1 1 1"

function max_suffix_rev_loop :: "byte list \<Rightarrow> nat \<Rightarrow> nat \<Rightarrow> nat \<Rightarrow> nat \<Rightarrow> nat \<Rightarrow> nat \<times> nat" where
  "max_suffix_rev_loop needle m i j k period =
     (if j + k \<le> m then
        (if needle ! (j + k - 1) > needle ! (i + k - 1)
         then max_suffix_rev_loop needle m i (j + k) 1 (j + k - i)
         else if needle ! (j + k - 1) = needle ! (i + k - 1) then
           (if k = period then max_suffix_rev_loop needle m i (j + period) 1 period
            else max_suffix_rev_loop needle m i j (k + 1) period)
         else max_suffix_rev_loop needle m j (j + 1) 1 1)
      else (i, period))"
  by pat_completeness auto
termination
  by (relation "measures [\<lambda>(needle, m, i, j, k, period). if i < j then 0 else 1,
                          \<lambda>(needle, m, i, j, k, period). m - i,
                          \<lambda>(needle, m, i, j, k, period). Suc m - (j + k)]") auto

declare max_suffix_rev_loop.simps [simp del]

definition max_suffix_rev :: "byte list \<Rightarrow> nat \<Rightarrow> nat \<times> nat" where
  "max_suffix_rev needle m = max_suffix_rev_loop needle m 0 1 1 1"

text \<open>
  The fast path of \<^verbatim>\<open>two_way::search\<close> for \<open>m \<le> 8\<close>: \<^verbatim>\<open>memchr\<close> for the first
  byte, then \<^verbatim>\<open>memcmp\<close>; \<open>scan\<close> and \<open>limit\<close> are offsets into the haystack.
\<close>

function short_needle_scan :: "byte list \<Rightarrow> byte list \<Rightarrow> nat \<Rightarrow> nat \<Rightarrow> nat \<Rightarrow> found" where
  "short_needle_scan haystack needle m limit scan =
     (if scan \<le> limit then
        (case memchr (drop scan haystack) (needle ! 0) (limit - scan + 1) of
           None \<Rightarrow> NotFound
         | Some k \<Rightarrow>
             (if memcmp_eq (drop (scan + k) haystack) needle m then Found (scan + k)
              else short_needle_scan haystack needle m limit (scan + k + 1)))
      else NotFound)"
  by pat_completeness auto
termination
  by (relation "measure (\<lambda>(haystack, needle, m, limit, scan). Suc limit - scan)") simp_all

declare short_needle_scan.simps [simp del]

text \<open>
  The two inner loops \<^verbatim>\<open>while (i < m && needle[i] == pos[i]) ++i;\<close> and
  \<^verbatim>\<open>while (j <= l && needle[j] == pos[j]) ++j;\<close> (the second with bound \<open>l + 1\<close>).
\<close>

function match_forward :: "byte list \<Rightarrow> byte list \<Rightarrow> nat \<Rightarrow> nat \<Rightarrow> nat \<Rightarrow> nat" where
  "match_forward needle haystack pos bound i =
     (if i < bound \<and> needle ! i = haystack ! (pos + i)
      then match_forward needle haystack pos bound (i + 1) else i)"
  by pat_completeness auto
termination
  by (relation "measure (\<lambda>(needle, haystack, pos, bound, i). bound - i)") auto

declare match_forward.simps [simp del]

text \<open>
  The matching loops of \<^verbatim>\<open>two_way::search\<close> in the build without \<^verbatim>\<open>__AVX2__\<close>
  (the blocks under that macro only move \<open>pos\<close> forward to the next position whose byte
  at \<open>l + 1\<close> is \<^verbatim>\<open>needle[l + 1]\<close>). \<open>pos\<close> and \<open>end\<close> are offsets into the haystack.
  The non-periodic loop always advances; the periodic loop advances by \<open>period\<close>, which
  it is given, so it is defined as a partial function.
\<close>

function nonperiodic_loop ::
  "byte list \<Rightarrow> byte list \<Rightarrow> nat \<Rightarrow> nat \<Rightarrow> nat \<Rightarrow> nat \<Rightarrow> found" where
  "nonperiodic_loop haystack needle m l end pos =
     (if pos \<le> end then
        (let i = match_forward needle haystack pos m (l + 1)
         in if i < m then nonperiodic_loop haystack needle m l end (pos + (i - l))
            else
              (let j = match_forward needle haystack pos (l + 1) 0
               in if j > l then Found pos
                  else nonperiodic_loop haystack needle m l end (pos + (l + 1))))
      else NotFound)"
  by pat_completeness auto
termination
proof (relation "measure (\<lambda>(haystack, needle, m, l, end, pos). Suc end - pos)", goal_cases)
  case 1
  show ?case by simp
next
  case (2 haystack needle m l "end" pos i)
  have "i0 \<le> match_forward needle haystack pos m i0" for i0
  proof (induction needle haystack pos m i0 rule: match_forward.induct)
    case (1 needle haystack pos bound i)
    show ?case
    proof (cases "i < bound \<and> needle ! i = haystack ! (pos + i)")
      case True
      with 1 have "i + 1 \<le> match_forward needle haystack pos bound (i + 1)" by simp
      with True show ?thesis by (subst match_forward.simps) simp
    next
      case False
      then show ?thesis by (subst match_forward.simps) auto
    qed
  qed
  then have "l + 1 \<le> i" unfolding 2 .
  with 2 show ?case by simp
next
  case 3
  then show ?case by simp
qed

declare nonperiodic_loop.simps [simp del]

partial_function (option) periodic_loop ::
  "byte list \<Rightarrow> byte list \<Rightarrow> nat \<Rightarrow> nat \<Rightarrow> nat \<Rightarrow> nat \<Rightarrow> nat \<Rightarrow> nat \<Rightarrow> found option" where
  "periodic_loop haystack needle m l period end pos memory =
     (if pos \<le> end then
        (let i = match_forward needle haystack pos m (max (l + 1) memory)
         in if i < m then periodic_loop haystack needle m l period end (pos + (i - l)) 0
            else
              (let j = match_forward needle haystack pos (l + 1) memory
               in if j > l then Some (Found pos)
                  else periodic_loop haystack needle m l period end (pos + period)
                         (if m > period then m - period else 0)))
      else Some NotFound)"

declare periodic_loop.simps [code]

text \<open>
  \<^verbatim>\<open>two_way::search(haystack, n, needle, m)\<close>. The result \<open>None\<close> stands for a search
  that does not return. \<^verbatim>\<open>memcmp(needle, needle + period, l + 1)\<close> is taken on the
  bytes of the needle.
\<close>

definition two_way_search :: "byte list \<Rightarrow> nat \<Rightarrow> byte list \<Rightarrow> nat \<Rightarrow> found option" where
  "two_way_search haystack n needle m =
     (if m = 0 then Some (Found 0)
      else if m > n then Some NotFound
      else if m \<le> 8 then Some (short_needle_scan haystack needle m (n - m) 0)
      else
        (let (l1, per1) = max_suffix needle m;
             (l2, per2) = max_suffix_rev needle m;
             (l, period) = (if l1 \<ge> l2 then (l1, per1) else (l2, per2));
             periodic = memcmp_eq needle (drop period needle) (l + 1);
             end = n - m
         in if periodic then periodic_loop haystack needle m l period end 0 0
            else Some (nonperiodic_loop haystack needle m l end 0)))"

definition kTwoWayHaystackThreshold :: nat where
  "kTwoWayHaystackThreshold = 65536"

text \<open>
  The brute-force reference scan: the needle occurs at \<open>k\<close>, and the first such \<open>k\<close> at
  or after \<open>start\<close>. \<^verbatim>\<open>std::string_view::find\<close>, the search of the platform's library, is
  taken by its specification, which is this scan from 0.
\<close>

definition occurs_at :: "byte list \<Rightarrow> byte list \<Rightarrow> nat \<Rightarrow> bool" where
  "occurs_at haystack needle k \<longleftrightarrow>
     k + length needle \<le> length haystack \<and> take (length needle) (drop k haystack) = needle"

definition brute_force_find :: "byte list \<Rightarrow> byte list \<Rightarrow> nat \<Rightarrow> found" where
  "brute_force_find haystack needle start =
     (case List.find (occurs_at haystack needle) [start ..< Suc (length haystack)] of
        None \<Rightarrow> NotFound
      | Some k \<Rightarrow> Found k)"

definition sv_find :: "byte list \<Rightarrow> byte list \<Rightarrow> found" where
  "sv_find haystack sv = brute_force_find haystack sv 0"

text \<open>\<^verbatim>\<open>find(std::string_view sv, size_type pos)\<close>.\<close>

definition string_find :: "byte list \<Rightarrow> nat \<Rightarrow> fl_string \<Rightarrow> machine \<Rightarrow> found option" where
  "string_find sv pos s m =
     (if pos > str_size s then Some NotFound
      else if sv = [] then Some (Found pos)
      else
        (let data = storage m s;
             remaining = str_size s - pos
         in if length sv = 1 then
              (case memchr (drop pos data) (sv ! 0) remaining of
                 None \<Rightarrow> Some NotFound
               | Some k \<Rightarrow> Some (Found (pos + k)))
            else if remaining \<ge> kTwoWayHaystackThreshold \<and> length sv \<ge> 2 then
              (case two_way_search (drop pos data) remaining sv (length sv) of
                 None \<Rightarrow> None
               | Some NotFound \<Rightarrow> Some NotFound
               | Some (Found k) \<Rightarrow> Some (Found (pos + k)))
            else
              (case sv_find (take remaining (drop pos data)) sv of
                 NotFound \<Rightarrow> Some NotFound
               | Found k \<Rightarrow> Some (Found (pos + k)))))"

section \<open>Shared facts\<close>

lemma pool_class_index_cases:
  "pool_class_index n =
     (if n \<le> 64 then 0 else if n \<le> 128 then 1 else if n \<le> 256 then 2
      else if n \<le> 512 then 3 else if n \<le> 1024 then 4 else if n \<le> 2048 then 5
      else if n \<le> 4096 then 6 else - 1)"
  by (simp add: pool_class_index_def POOL_CLASSES_def)

lemma pool_class_index_range: "pool_class_index n < 7"
  by (simp add: pool_class_index_cases)

lemma block_after_deallocate:
  "p \<noteq> q \<Longrightarrow> block (deallocate_bytes_aligned p n align m) q = block m q"
  by (simp add: deallocate_bytes_aligned_def default_deallocate_aligned_def
      deallocate_aligned_unpooled_def block_def Let_def)

lemma events_deallocate:
  "events (deallocate_bytes_aligned p n align m) = events m @ [Deallocate p n]"
  by (simp add: deallocate_bytes_aligned_def default_deallocate_aligned_def
      deallocate_aligned_unpooled_def Let_def)

lemma smallest_class:
  assumes "raw \<le> MAX_POOL_SIZE"
  shows "Min {c \<in> set POOL_CLASSES. raw \<le> c} = POOL_CLASSES ! nat (pool_class_index raw)"
proof (rule Min_eqI)
  show "finite {c \<in> set POOL_CLASSES. raw \<le> c}" by simp
  show "POOL_CLASSES ! nat (pool_class_index raw) \<in> {c \<in> set POOL_CLASSES. raw \<le> c}"
    using assms by (simp add: pool_class_index_cases POOL_CLASSES_def MAX_POOL_SIZE_def)
  fix y assume "y \<in> {c \<in> set POOL_CLASSES. raw \<le> c}"
  then show "POOL_CLASSES ! nat (pool_class_index raw) \<le> y"
    using assms by (auto simp: pool_class_index_cases POOL_CLASSES_def MAX_POOL_SIZE_def)
qed

lemma usable_capacity_pooled:
  assumes "raw \<le> MAX_POOL_SIZE"
  shows "pool_alloc_usable_capacity raw = Min {c \<in> set POOL_CLASSES. raw \<le> c} - 1"
    and "raw - 1 \<le> pool_alloc_usable_capacity raw"
proof -
  have i: "0 \<le> pool_class_index raw"
    using assms by (simp add: pool_class_index_cases MAX_POOL_SIZE_def)
  then show "pool_alloc_usable_capacity raw = Min {c \<in> set POOL_CLASSES. raw \<le> c} - 1"
    by (simp add: pool_alloc_usable_capacity_def smallest_class [OF assms])
  have "raw \<le> POOL_CLASSES ! nat (pool_class_index raw)"
    using assms by (simp add: pool_class_index_cases POOL_CLASSES_def MAX_POOL_SIZE_def)
  with i show "raw - 1 \<le> pool_alloc_usable_capacity raw"
    by (simp add: pool_alloc_usable_capacity_def)
qed

lemma flag_or_set [simp]: "(f OR HEAP_ALLOCATED_FLAG) AND HEAP_ALLOCATED_FLAG \<noteq> 0"
proof
  assume "(f OR HEAP_ALLOCATED_FLAG) AND HEAP_ALLOCATED_FLAG = 0"
  then have "bit ((f OR 1) AND 1) 0 = bit (0::8 word) 0"
    by (simp add: HEAP_ALLOCATED_FLAG_def)
  then show False by (simp add: bit_simps)
qed

lemma flag_nonzero [simp]: "HEAP_ALLOCATED_FLAG \<noteq> 0"
  by (simp add: HEAP_ALLOCATED_FLAG_def)

lemma calculate_new_capacity_100: "calculate_new_capacity 100 = 127"
  by (simp add: calculate_new_capacity_def)

lemma events_allocate:
  "events (snd (allocate_bytes_aligned n align m))
     = events m @ [Allocate n (fst (allocate_bytes_aligned n align m))]"
  by (simp add: allocate_bytes_aligned_def default_allocate_aligned_def
      allocate_aligned_unpooled_def Let_def split_beta)

lemma capacity_allocate_heap_exact:
  "string_capacity (fst (string_allocate_heap_exact cap (s, m)))
     = pool_alloc_usable_capacity ((cap + 1) mod 2 ^ 64)"
  by (simp add: string_allocate_heap_exact_def Let_def split_beta string_capacity_def
      is_heap_allocated_def)

lemma capacity_allocate_heap:
  "string_capacity (fst (string_allocate_heap n (s, m)))
     = pool_alloc_usable_capacity
         ((unat (calculate_new_capacity (word_of_nat n)) + 1) mod 2 ^ 64)"
  by (simp add: string_allocate_heap_def Let_def split_beta string_capacity_def
      is_heap_allocated_def)

lemma capacity_grow_to:
  assumes "string_capacity s < n"
  shows "string_capacity (fst (string_grow_to n (s, m)))
     = pool_alloc_usable_capacity
         ((unat (calculate_new_capacity (word_of_nat n)) + 1) mod 2 ^ 64)"
proof (cases "is_heap_allocated s")
  case True
  then have "is_heap_allocated (s\<lparr>data_heap_ptr := p, data_heap_capacity := c\<rparr>)" for p c
    by (simp add: is_heap_allocated_def)
  with True assms show ?thesis
    by (simp add: string_grow_to_def Let_def split_beta string_capacity_def)
next
  case False
  with assms show ?thesis
    by (simp add: string_grow_to_def Let_def split_beta)
       (simp add: string_capacity_def is_heap_allocated_def)
qed

lemma capacity_string_from:
  assumes "\<not> fits_in_sso len"
  shows "string_capacity (fst (string_from cstr len m))
           = pool_alloc_usable_capacity ((len + 1) mod 2 ^ 64)"
proof -
  from assms have "0 < len" by (simp add: fits_in_sso_def SSO_THRESHOLD_def SSO_CAPACITY_def)
  then show ?thesis
    using assms
    by (simp add: string_from_def Let_def split_beta string_allocate_heap_exact_def
        string_capacity_def is_heap_allocated_def)
qed

lemma events_grow_heap:
  assumes "is_heap_allocated s" and "string_capacity s < n"
  shows "events (snd (string_grow_to n (s, m))) =
           events m @
           [Allocate ((unat (calculate_new_capacity (word_of_nat n)) + 1) mod 2 ^ 64)
              (data_heap_ptr (fst (string_grow_to n (s, m)))),
            Memcpy (data_heap_ptr (fst (string_grow_to n (s, m)))) (data_heap_ptr s) (str_size s),
            Deallocate (data_heap_ptr s) (data_heap_capacity s + 1)]"
  using assms
  by (simp add: string_grow_to_def Let_def split_beta events_deallocate write_block_def
      memcpy_blocks_def events_allocate)

lemma take_copy_terminated:
  assumes "len \<le> length src"
  shows "take len ((memcpy dst 0 src len)[len := 0]) = take len src"
  using assms by (simp add: memcpy_def)

lemma copy_terminator:
  assumes "len \<le> length src" and "len < length dst"
  shows "(memcpy dst 0 src len)[len := 0] ! len = 0"
  using assms by (simp add: memcpy_def nth_list_update)

lemma assign_impl_in_place:
  assumes "is_heap_allocated s"
    and "len \<le> data_heap_capacity s"
    and "len \<le> length cstr"
    and "data_heap_capacity s < length (block m (data_heap_ptr s))"
    and "string_assign_impl cstr len (s, m) = (s', m')"
  shows "string_bytes m' s' = take len cstr \<and> str_size s' = len \<and>
         storage m' s' ! len = 0 \<and>
         is_heap_allocated s' \<and> string_capacity s' = string_capacity s \<and>
         data_heap_ptr s' = data_heap_ptr s \<and>
         events m' = events m \<and> tls m' = tls m \<and> next_block m' = next_block m"
proof -
  from assms(1,2,5) have s': "s' = s\<lparr>str_size := len\<rparr>"
    and m': "m' = write_block (data_heap_ptr s)
              ((copy_heap_hot (block m (data_heap_ptr s)) cstr len)[len := 0]) m"
    by (simp_all add: string_assign_impl_def)
  have h: "is_heap_allocated s'" using assms(1) by (simp add: s' is_heap_allocated_def)
  have st: "storage m' s' = (memcpy (block m (data_heap_ptr s)) 0 cstr len)[len := 0]"
    using h by (simp add: storage_def s' m' write_block_def block_def copy_heap_hot_def)
  have "string_bytes m' s' = take len cstr"
    unfolding string_bytes_def st using assms(3) by (simp add: s' memcpy_def)
  moreover have "storage m' s' ! len = 0"
    unfolding st using assms(2,3,4) by (intro copy_terminator) simp_all
  moreover have "string_capacity s' = string_capacity s"
    using assms(1) h by (simp add: string_capacity_def) (simp add: s')
  ultimately show ?thesis
    using h by (simp add: s' m' write_block_def)
qed

lemma string_from_content:
  assumes "len \<le> length cstr"
  shows "str_size (fst (string_from cstr len m)) = len"
    and "take len (storage (snd (string_from cstr len m)) (fst (string_from cstr len m)))
           = take len cstr"
proof -
  show "str_size (fst (string_from cstr len m)) = len"
    by (simp add: string_from_def Let_def split_beta string_allocate_heap_exact_def)
  show "take len (storage (snd (string_from cstr len m)) (fst (string_from cstr len m)))
           = take len cstr"
  proof (cases "len > 0 \<and> \<not> fits_in_sso len")
    case True
    then show ?thesis
      using assms
      by (simp add: string_from_def Let_def split_beta string_allocate_heap_exact_def
          storage_def is_heap_allocated_def write_block_def block_def copy_heap_hot_def
          memcpy_def)
  next
    case False
    then show ?thesis
      using assms
      by (auto simp: string_from_def Let_def storage_def is_heap_allocated_def copy_sso_def
          memcpy_def)
  qed
qed

lemma abc_string:
  "string_from [97, 98, 99] 3 fresh_machine =
     (\<lparr>data_sso = [97, 98, 99, 0] @ replicate 20 0xCD, data_heap_ptr = 0,
       data_heap_capacity = 0, str_size = 3, str_flags = 0\<rparr>, fresh_machine)"
  by (simp add: string_from_def fits_in_sso_def SSO_THRESHOLD_def SSO_CAPACITY_def
      copy_sso_def memcpy_def fresh_machine_def numeral_eq_Suc)

lemma a30_string:
  "string_from (replicate 30 97) 30 fresh_machine =
     (\<lparr>data_sso = replicate 24 0xCD, data_heap_ptr = 1, data_heap_capacity = 63,
       str_size = 30, str_flags = 1\<rparr>,
      \<lparr>tls = \<lparr>counts = (\<lambda>_. 0), slots = (\<lambda>_ _. 0)\<rparr>,
       blocks = [1 \<mapsto> replicate 30 97 @ (replicate 34 0xCD)[0 := 0]],
       next_block = 2, junk = 0xCD, events = [Allocate 31 1]\<rparr>)"
  by (simp add: string_from_def fits_in_sso_def SSO_THRESHOLD_def SSO_CAPACITY_def
      string_allocate_heap_exact_def allocate_bytes_aligned_def default_allocate_aligned_def
      pool_class_index_cases POOL_CLASSES_def allocate_aligned_unpooled_def fresh_machine_def
      preferred_alloc_alignment_def pool_alloc_usable_capacity_def HEAP_ALLOCATED_FLAG_def
      write_block_def block_def copy_heap_hot_def memcpy_def list_update_append
      replicate_add [symmetric])

lemma a30_grown:
  "string_grow_to 100 (string_from (replicate 30 97) 30 fresh_machine) =
     (\<lparr>data_sso = replicate 24 205, data_heap_ptr = 2,
        data_heap_capacity = 127, str_size = 30, str_flags = 1\<rparr>,
      \<lparr>tls = \<lparr>counts = (\<lambda>_. 0)(0 := Suc 0),
              slots = (\<lambda>_ _. 0)(0 := (\<lambda>_. 0)(0 := Suc 0))\<rparr>,
        blocks = [Suc 0 \<mapsto> replicate 30 97 @ (replicate 34 205)[0 := 0],
                  2 \<mapsto> (replicate 30 97 @ replicate 98 205)[30 := 0]],
        next_block = 3, junk = 205,
        events = [Allocate 31 (Suc 0), Allocate 128 2, Memcpy 2 (Suc 0) 30,
                  Deallocate (Suc 0) 64]\<rparr>)"
  by (simp add: a30_string string_grow_to_def string_capacity_def is_heap_allocated_def
      HEAP_ALLOCATED_FLAG_def calculate_new_capacity_100 preferred_alloc_alignment_def
      allocate_bytes_aligned_def default_allocate_aligned_def pool_class_index_cases
      POOL_CLASSES_def allocate_aligned_unpooled_def memcpy_blocks_def write_block_def
      block_def memcpy_def deallocate_bytes_aligned_def default_deallocate_aligned_def
      POOL_SLAB_DEPTH_def pool_alloc_usable_capacity_def Let_def)

lemma a30_shrunk:
  "string_shrink_to_fit (string_from (replicate 30 97) 30 fresh_machine) =
     (\<lparr>data_sso = replicate 24 205, data_heap_ptr = 2,
        data_heap_capacity = 30, str_size = 30, str_flags = 1\<rparr>,
      \<lparr>tls = \<lparr>counts = (\<lambda>_. 0)(0 := Suc 0),
              slots = (\<lambda>_ _. 0)(0 := (\<lambda>_. 0)(0 := Suc 0))\<rparr>,
        blocks = [Suc 0 \<mapsto> replicate 30 97 @ (replicate 34 205)[0 := 0],
                  2 \<mapsto> (replicate 30 97 @ replicate 34 205)[30 := 0]],
        next_block = 3, junk = 205,
        events = [Allocate 31 (Suc 0), Allocate 31 2, Memcpy 2 (Suc 0) 30,
                  Deallocate (Suc 0) 64]\<rparr>)"
  by (simp add: a30_string string_shrink_to_fit_def string_capacity_def is_heap_allocated_def
      HEAP_ALLOCATED_FLAG_def fits_in_sso_def SSO_THRESHOLD_def SSO_CAPACITY_def
      preferred_alloc_alignment_def
      allocate_bytes_aligned_def default_allocate_aligned_def pool_class_index_cases
      POOL_CLASSES_def allocate_aligned_unpooled_def memcpy_blocks_def write_block_def
      block_def memcpy_def deallocate_bytes_aligned_def default_deallocate_aligned_def
      POOL_SLAB_DEPTH_def pool_alloc_usable_capacity_def Let_def)

section \<open>Growth capacity\<close>

lemma smear_step:
  fixes c n :: "64 word"
  assumes "\<And>i. bit c i \<longleftrightarrow> (\<exists>e<d. bit n (i + e))"
  shows "bit (c OR drop_bit d c) i \<longleftrightarrow> (\<exists>e<2 * d. bit n (i + e))"
proof -
  have "bit (c OR drop_bit d c) i \<longleftrightarrow> bit c i \<or> bit c (d + i)"
    by (simp add: bit_or_iff bit_drop_bit_eq)
  also have "\<dots> \<longleftrightarrow> (\<exists>e<d. bit n (i + e)) \<or> (\<exists>e<d. bit n (d + i + e))"
    using assms by simp
  also have "\<dots> \<longleftrightarrow> (\<exists>e<2 * d. bit n (i + e))"
  proof
    assume "(\<exists>e<d. bit n (i + e)) \<or> (\<exists>e<d. bit n (d + i + e))"
    then show "\<exists>e<2 * d. bit n (i + e)"
    proof
      assume "\<exists>e<d. bit n (i + e)"
      then obtain e where "e < d" "bit n (i + e)" by blast
      then show ?thesis by (intro exI[of _ e]) simp
    next
      assume "\<exists>e<d. bit n (d + i + e)"
      then obtain e where "e < d" "bit n (d + i + e)" by blast
      then show ?thesis by (intro exI[of _ "d + e"]) (simp add: ac_simps)
    qed
  next
    assume "\<exists>e<2 * d. bit n (i + e)"
    then obtain e where e: "e < 2 * d" "bit n (i + e)" by blast
    show "(\<exists>e<d. bit n (i + e)) \<or> (\<exists>e<d. bit n (d + i + e))"
    proof (cases "e < d")
      case True with e show ?thesis by blast
    next
      case False
      with e have "e - d < d" "bit n (d + i + (e - d))" by (simp_all add: ac_simps)
      then show ?thesis by blast
    qed
  qed
  finally show ?thesis .
qed

lemma smear_bits:
  fixes n :: "64 word"
  assumes "\<not> n < 32"
  shows "bit (calculate_new_capacity n) i \<longleftrightarrow> (\<exists>e<64. bit n (i + e))"
proof -
  define c1 where "c1 = n OR drop_bit 1 n"
  define c2 where "c2 = c1 OR drop_bit 2 c1"
  define c3 where "c3 = c2 OR drop_bit 4 c2"
  define c4 where "c4 = c3 OR drop_bit 8 c3"
  define c5 where "c5 = c4 OR drop_bit 16 c4"
  define c6 where "c6 = c5 OR drop_bit 32 c5"
  have b0: "\<And>i. bit n i \<longleftrightarrow> (\<exists>e<1. bit n (i + e))" by simp
  have b1: "\<And>i. bit c1 i \<longleftrightarrow> (\<exists>e<2. bit n (i + e))"
    unfolding c1_def using smear_step[of n 1 n, OF b0] by simp
  have b2: "\<And>i. bit c2 i \<longleftrightarrow> (\<exists>e<4. bit n (i + e))"
    unfolding c2_def using smear_step[of c1 2 n, OF b1] by simp
  have b3: "\<And>i. bit c3 i \<longleftrightarrow> (\<exists>e<8. bit n (i + e))"
    unfolding c3_def using smear_step[of c2 4 n, OF b2] by simp
  have b4: "\<And>i. bit c4 i \<longleftrightarrow> (\<exists>e<16. bit n (i + e))"
    unfolding c4_def using smear_step[of c3 8 n, OF b3] by simp
  have b5: "\<And>i. bit c5 i \<longleftrightarrow> (\<exists>e<32. bit n (i + e))"
    unfolding c5_def using smear_step[of c4 16 n, OF b4] by simp
  have b6: "\<And>i. bit c6 i \<longleftrightarrow> (\<exists>e<64. bit n (i + e))"
    unfolding c6_def using smear_step[of c5 32 n, OF b5] by simp
  have "calculate_new_capacity n = c6"
    using assms by (simp add: calculate_new_capacity_def Let_def c1_def c2_def c3_def c4_def c5_def c6_def)
  with b6 show ?thesis by simp
qed

lemma calc_mask:
  fixes n :: "64 word"
  assumes "\<not> n < 32"
  shows "\<exists>h<64. bit n h \<and> calculate_new_capacity n = mask (Suc h)"
proof -
  from assms have "n \<noteq> 0" by auto
  then obtain j where "bit n j" by (auto simp: bit_eq_iff)
  define S where "S = {j. bit n j}"
  have fin: "finite S" and ne: "S \<noteq> {}"
    using \<open>bit n j\<close> by (auto simp: S_def)
  define h where "h = Max S"
  have hS: "h \<in> S" unfolding h_def using fin ne by (rule Max_in)
  then have bh: "bit n h" by (simp add: S_def)
  then have h64: "h < 64" by (auto dest: bit_imp_le_length)
  have top: "\<And>j. bit n j \<Longrightarrow> j \<le> h"
    unfolding h_def using fin by (simp add: S_def)
  have "calculate_new_capacity n = mask (Suc h)"
  proof (rule bit_word_eqI)
    fix i assume "i < LENGTH(64)"
    have "bit (calculate_new_capacity n) i \<longleftrightarrow> i \<le> h"
    proof
      assume "bit (calculate_new_capacity n) i"
      then obtain e where "bit n (i + e)" using smear_bits[OF assms] by blast
      from top[OF this] show "i \<le> h" by simp
    next
      assume "i \<le> h"
      then have "h - i < 64" "bit n (i + (h - i))" using h64 bh by simp_all
      then show "bit (calculate_new_capacity n) i" using smear_bits[OF assms] by blast
    qed
    then show "bit (calculate_new_capacity n) i \<longleftrightarrow> bit (mask (Suc h) :: 64 word) i"
      using \<open>i < LENGTH(64)\<close> by (simp add: bit_mask_iff less_Suc_eq_le)
  qed
  with bh h64 show ?thesis by blast
qed

lemma unat_mask64: "k \<le> 64 \<Longrightarrow> unat (mask k :: 64 word) = 2 ^ k - 1"
proof -
  assume k: "k \<le> 64"
  have "(mask k :: 64 word) = take_bit k (- 1)" by simp
  then have "unat (mask k :: 64 word) = take_bit k (unat (- 1 :: 64 word))"
    by (simp only: unsigned_take_bit_eq)
  also have "\<dots> = take_bit k (mask 64 :: nat)"
    by (simp add: unsigned_minus_1_eq_mask)
  also have "\<dots> = mask k" using k by (simp add: take_bit_of_mask min_def)
  finally show ?thesis by (simp add: mask_eq_exp_minus_1)
qed

lemma calculate_new_capacity_below:
  assumes "n < 2 ^ 63"
  shows "unat (calculate_new_capacity (word_of_nat n)) < 2 ^ 63"
proof (cases "(word_of_nat n :: 64 word) < 32")
  case True
  then show ?thesis by (simp add: calculate_new_capacity_def)
next
  case False
  from calc_mask [OF False] obtain h where h: "h < 64" "bit (word_of_nat n :: 64 word) h"
    and eq: "calculate_new_capacity (word_of_nat n) = mask (Suc h)" by blast
  have un: "unat (word_of_nat n :: 64 word) = n"
    using assms by (simp add: unat_of_nat)
  have low: "2 ^ h \<le> n"
  proof (rule ccontr)
    assume "\<not> 2 ^ h \<le> n"
    then have "n div 2 ^ h = 0" by simp
    moreover have "odd (unat (word_of_nat n :: 64 word) div 2 ^ h)"
      using h(2) by (simp add: bit_unsigned_iff flip: bit_iff_odd)
    ultimately show False by (simp add: un)
  qed
  with assms have "(2::nat) ^ h < 2 ^ 63" by simp
  then have "h < 63" by (intro power_less_imp_less_exp [of 2 h 63]) simp_all
  then have "(2::nat) ^ Suc h \<le> 2 ^ 63" by (intro power_increasing) simp_all
  moreover have "unat (calculate_new_capacity (word_of_nat n)) = 2 ^ Suc h - 1"
    using h(1) unat_mask64 [of "Suc h"] by (simp add: eq)
  ultimately show ?thesis by simp
qed

text \<open>
  C5. For every required size \<open>n\<close>, \<^verbatim>\<open>_calculate_new_capacity\<close> returns 32 when
  \<open>n < 32\<close>, and otherwise the smallest value of the form \<open>2 ^ k - 1\<close> that is at
  least \<open>n\<close>.
\<close>

theorem calculate_new_capacity_rule:
  fixes n :: "64 word"
  shows "(n < 32 \<longrightarrow> calculate_new_capacity n = 32) \<and>
         (32 \<le> n \<longrightarrow>
            (\<exists>k. unat (calculate_new_capacity n) = 2 ^ k - 1 \<and>
                 unat n \<le> 2 ^ k - 1 \<and>
                 (\<forall>j. unat n \<le> 2 ^ j - 1 \<longrightarrow> (2::nat) ^ k - 1 \<le> 2 ^ j - 1)))"
proof (intro conjI impI)
  assume "n < 32" then show "calculate_new_capacity n = 32"
    by (simp add: calculate_new_capacity_def)
next
  assume "32 \<le> n"
  then have nl: "\<not> n < 32" by simp
  from calc_mask[OF nl] obtain h where h: "h < 64" "bit n h"
    and eq: "calculate_new_capacity n = mask (Suc h)" by blast
  have u: "unat (calculate_new_capacity n) = 2 ^ Suc h - 1"
    using h(1) unat_mask64[of "Suc h"] by (simp add: eq)
  have "n \<le> calculate_new_capacity n"
    using nl by (simp add: calculate_new_capacity_def Let_def le_word_or2 word_bw_assocs)
  then have le: "unat n \<le> 2 ^ Suc h - 1"
    using u by (simp add: word_le_nat_alt)
  have low: "2 ^ h \<le> unat n"
  proof (rule ccontr)
    assume "\<not> 2 ^ h \<le> unat n"
    then have "unat n div 2 ^ h = 0" by simp
    moreover have "odd (unat n div 2 ^ h)"
      using h(2) by (simp add: bit_unsigned_iff flip: bit_iff_odd)
    ultimately show False by simp
  qed
  have small: "(2::nat) ^ Suc h - 1 \<le> 2 ^ j - 1" if "unat n \<le> 2 ^ j - 1" for j
  proof -
    have "(0::nat) < 2 ^ j" by simp
    with that low have "(2::nat) ^ h < 2 ^ j" by linarith
    then have "h < j" by simp
    then have "(2::nat) ^ Suc h \<le> 2 ^ j" by (intro power_increasing) simp_all
    then show ?thesis by simp
  qed
  show "\<exists>k. unat (calculate_new_capacity n) = 2 ^ k - 1 \<and>
                 unat n \<le> 2 ^ k - 1 \<and>
                 (\<forall>j. unat n \<le> 2 ^ j - 1 \<longrightarrow> (2::nat) ^ k - 1 \<le> 2 ^ j - 1)"
    using u le small by blast
qed

theorem calculate_new_capacity_rule_witness:
  "calculate_new_capacity 7 = 32 \<and>
   (\<exists>k. unat (calculate_new_capacity 100) = 2 ^ k - 1 \<and> (100::nat) \<le> 2 ^ k - 1 \<and>
        (\<forall>j. (100::nat) \<le> 2 ^ j - 1 \<longrightarrow> (2::nat) ^ k - 1 \<le> 2 ^ j - 1))"
  using calculate_new_capacity_rule [of 7] calculate_new_capacity_rule [of 100] by simp

section \<open>Recycling of released blocks\<close>

text \<open>
  C6, as the code has it. Releasing a non-null block \<open>b\<close> whose size maps to a size class
  that holds fewer than 8 recycled blocks, and then allocating any non-zero size that
  maps to the same class, returns exactly \<open>b\<close> and leaves the count of the class as it
  was; of two blocks released in turn, the second comes back first. (A request of size 0
  returns \<^verbatim>\<open>nullptr\<close>, although \<^verbatim>\<open>pool_class_index\<close> maps 0 to the first class.)
\<close>

theorem recycler_reuses_released_block:
  assumes "b \<noteq> 0"
    and "0 \<le> pool_class_index n"
    and "counts (tls m) (nat (pool_class_index n)) < POOL_SLAB_DEPTH"
    and "n' \<noteq> 0"
    and "pool_class_index n' = pool_class_index n"
  shows "fst (default_allocate_aligned n' align' (default_deallocate_aligned b n align m)) = b \<and>
         tls (snd (default_allocate_aligned n' align' (default_deallocate_aligned b n align m)))
           = (tls m)\<lparr>slots := (slots (tls m))
                (nat (pool_class_index n) :=
                   (slots (tls m) (nat (pool_class_index n)))
                     (counts (tls m) (nat (pool_class_index n)) := b))\<rparr> \<and>
         (b' \<noteq> 0 \<and> Suc (counts (tls m) (nat (pool_class_index n))) < POOL_SLAB_DEPTH \<longrightarrow>
            (let m2 = default_deallocate_aligned b' n align (default_deallocate_aligned b n align m);
                 (p1, m3) = default_allocate_aligned n' align' m2;
                 (p2, m4) = default_allocate_aligned n' align' m3
             in p1 = b' \<and> p2 = b))"
  using assms
  by (simp add: default_allocate_aligned_def default_deallocate_aligned_def Let_def)

theorem recycler_reuses_released_block_witness:
  "(1::nat) \<noteq> 0 \<and> 0 \<le> pool_class_index 100 \<and>
   counts (tls (snd (default_allocate_aligned 100 16 fresh_machine))) (nat (pool_class_index 100))
     < POOL_SLAB_DEPTH \<and>
   (70::nat) \<noteq> 0 \<and> pool_class_index 70 = pool_class_index 100 \<and>
   fst (default_allocate_aligned 100 16 fresh_machine) = 1 \<and>
   fst (default_allocate_aligned 70 16
          (default_deallocate_aligned 1 100 16
             (snd (default_allocate_aligned 100 16 fresh_machine)))) = 1 \<and>
   fst (default_allocate_aligned 70 16
          (default_deallocate_aligned 9 100 16
             (default_deallocate_aligned 1 100 16
                (snd (default_allocate_aligned 100 16 fresh_machine))))) = 9"
proof -
  have h: "0 \<le> pool_class_index 100" "pool_class_index 70 = pool_class_index 100"
    by (simp_all add: pool_class_index_cases)
  have c: "counts (tls (snd (default_allocate_aligned 100 16 fresh_machine)))
             (nat (pool_class_index 100)) = 0"
    by (simp add: default_allocate_aligned_def pool_class_index_cases fresh_machine_def
        allocate_aligned_unpooled_def POOL_CLASSES_def)
  have f: "fst (default_allocate_aligned 100 16 fresh_machine) = 1"
    by (simp add: default_allocate_aligned_def pool_class_index_cases fresh_machine_def
        allocate_aligned_unpooled_def POOL_CLASSES_def)
  show ?thesis
    using recycler_reuses_released_block [where b = 1 and n = 100 and n' = 70 and align = 16 and align' = 16
        and b' = 9 and m = "snd (default_allocate_aligned 100 16 fresh_machine)"] h c f
    by (simp add: POOL_SLAB_DEPTH_def split_beta Let_def)
qed

theorem recycler_zero_size_counterexample:
  "fst (default_allocate_aligned 64 16 fresh_machine) = 1 \<and>
   pool_class_index 0 = pool_class_index 64 \<and>
   counts (tls (snd (default_allocate_aligned 64 16 fresh_machine))) (nat (pool_class_index 64))
     < POOL_SLAB_DEPTH \<and>
   fst (default_allocate_aligned 0 16
          (default_deallocate_aligned 1 64 16
             (snd (default_allocate_aligned 64 16 fresh_machine)))) = 0"
  by (simp add: default_allocate_aligned_def pool_class_index_cases fresh_machine_def
      allocate_aligned_unpooled_def POOL_SLAB_DEPTH_def POOL_CLASSES_def)

section \<open>Reported capacity after a heap allocation\<close>

text \<open>
  C4, as the code has it. After a heap allocation made by a constructor, by assignment
  or by growth (\<^verbatim>\<open>_allocate_heap_exact\<close>, \<^verbatim>\<open>_allocate_heap\<close>, \<^verbatim>\<open>_grow_to\<close>) whose
  raw request, the requested capacity plus one, is at most 4096, \<^verbatim>\<open>capacity()\<close> is
  the smallest size class that holds the raw request, minus one; it is at least the
  requested capacity. The reallocation of \<^verbatim>\<open>shrink_to_fit\<close> records the size instead.
\<close>

theorem heap_capacity_is_pool_rounded:
  assumes "cap + 1 \<le> MAX_POOL_SIZE"
  shows "((s' = fst (string_allocate_heap_exact cap (s, m)) \<or>
          (\<not> fits_in_sso cap \<and> s' = fst (string_from cstr cap m)) \<or>
          (cap = unat (calculate_new_capacity (word_of_nat n)) \<and>
             s' = fst (string_allocate_heap n (s, m))) \<or>
          (cap = unat (calculate_new_capacity (word_of_nat n)) \<and> string_capacity s < n \<and>
             s' = fst (string_grow_to n (s, m))))
         \<longrightarrow> string_capacity s' = Min {c \<in> set POOL_CLASSES. cap + 1 \<le> c} - 1 \<and>
             cap \<le> string_capacity s') \<and>
         (is_heap_allocated s \<and> str_size s < data_heap_capacity s \<and> \<not> fits_in_sso (str_size s)
         \<longrightarrow> string_capacity (fst (string_shrink_to_fit (s, m))) = str_size s)"
proof (intro conjI impI)
  assume "s' = fst (string_allocate_heap_exact cap (s, m)) \<or>
          (\<not> fits_in_sso cap \<and> s' = fst (string_from cstr cap m)) \<or>
          (cap = unat (calculate_new_capacity (word_of_nat n)) \<and>
             s' = fst (string_allocate_heap n (s, m))) \<or>
          (cap = unat (calculate_new_capacity (word_of_nat n)) \<and> string_capacity s < n \<and>
             s' = fst (string_grow_to n (s, m)))"
  moreover from assms have "(cap + 1) mod 2 ^ 64 = cap + 1"
    by (simp add: MAX_POOL_SIZE_def)
  ultimately have "string_capacity s' = pool_alloc_usable_capacity (cap + 1)"
    by (auto simp: capacity_allocate_heap_exact capacity_string_from capacity_allocate_heap
        capacity_grow_to)
  with usable_capacity_pooled [OF assms]
  show "string_capacity s' = Min {c \<in> set POOL_CLASSES. cap + 1 \<le> c} - 1"
    and "cap \<le> string_capacity s'"
    by simp_all
next
  assume "is_heap_allocated s \<and> str_size s < data_heap_capacity s \<and> \<not> fits_in_sso (str_size s)"
  then show "string_capacity (fst (string_shrink_to_fit (s, m))) = str_size s"
    by (simp add: string_shrink_to_fit_def Let_def split_beta string_capacity_def
        is_heap_allocated_def)
qed

theorem heap_capacity_is_pool_rounded_witness:
  "100 + 1 \<le> MAX_POOL_SIZE \<and> \<not> fits_in_sso 100 \<and>
   string_capacity (fst (string_from (replicate 100 97) 100 fresh_machine)) = 127 \<and>
   100 < string_capacity (fst (string_from (replicate 100 97) 100 fresh_machine)) \<and>
   is_heap_allocated (fst (string_from (replicate 30 97) 30 fresh_machine)) \<and>
   \<not> fits_in_sso (str_size (fst (string_from (replicate 30 97) 30 fresh_machine))) \<and>
   string_capacity (fst (string_from (replicate 30 97) 30 fresh_machine)) = 63 \<and>
   string_capacity (fst (string_shrink_to_fit (string_from (replicate 30 97) 30 fresh_machine)))
     = 30"
proof -
  have a: "100 + 1 \<le> MAX_POOL_SIZE" by (simp add: MAX_POOL_SIZE_def)
  have f: "\<not> fits_in_sso 100" "\<not> fits_in_sso 30"
    by (simp_all add: fits_in_sso_def SSO_THRESHOLD_def SSO_CAPACITY_def)
  let ?s = "fst (string_from (replicate 30 97) 30 fresh_machine)"
  let ?m = "snd (string_from (replicate 30 97) 30 fresh_machine)"
  have h: "is_heap_allocated ?s"
    by (simp add: a30_string is_heap_allocated_def HEAP_ALLOCATED_FLAG_def)
  have c: "str_size ?s = 30" "data_heap_capacity ?s = 63" "string_capacity ?s = 63"
    using h by (simp_all add: string_capacity_def) (simp_all add: a30_string)
  have "Min {c \<in> set POOL_CLASSES. 100 + 1 \<le> c} = 128"
    using smallest_class [OF a] by (simp add: pool_class_index_cases POOL_CLASSES_def)
  with heap_capacity_is_pool_rounded [OF a, where cstr = "replicate 100 97" and n = 0
      and m = fresh_machine and s = "string_default fresh_machine"
      and s' = "fst (string_from (replicate 100 97) 100 fresh_machine)"]
    heap_capacity_is_pool_rounded [OF a, where cstr = "replicate 100 97" and n = 0
      and m = ?m and s = ?s and s' = ?s] a f h c
  show ?thesis by simp
qed

theorem shrink_to_fit_capacity_counterexample:
  "events (snd (string_shrink_to_fit (string_from (replicate 30 97) 30 fresh_machine))) =
     [Allocate 31 1, Allocate 31 2, Memcpy 2 1 30, Deallocate 1 64] \<and>
   31 \<le> MAX_POOL_SIZE \<and> pool_alloc_usable_capacity 31 = 64 - 1 \<and>
   string_capacity (fst (string_shrink_to_fit (string_from (replicate 30 97) 30 fresh_machine))) = 30"
  by (simp add: a30_shrunk)
     (simp add: MAX_POOL_SIZE_def pool_alloc_usable_capacity_def pool_class_index_cases
        POOL_CLASSES_def string_capacity_def is_heap_allocated_def HEAP_ALLOCATED_FLAG_def)

section \<open>Order of the steps of a heap-to-heap growth\<close>

text \<open>
  C3, as the code has it. When a Heap-variant string grows into a larger Heap variant,
  for a required capacity below \<open>2 ^ 63\<close>, the new buffer is requested first, the old
  bytes are copied into it, and the old buffer is released through the recycler last.
  (From \<open>2 ^ 63\<close> on, the size of the request wraps to 0.)
\<close>

theorem grow_heap_allocates_copies_then_releases:
  assumes "is_heap_allocated s" and "string_capacity s < n" and "n < 2 ^ 63"
  shows "is_heap_allocated (fst (string_grow_to n (s, m))) \<and>
         events (snd (string_grow_to n (s, m))) =
           events m @
           [Allocate (unat (calculate_new_capacity (word_of_nat n)) + 1)
              (data_heap_ptr (fst (string_grow_to n (s, m)))),
            Memcpy (data_heap_ptr (fst (string_grow_to n (s, m)))) (data_heap_ptr s) (str_size s),
            Deallocate (data_heap_ptr s) (data_heap_capacity s + 1)]"
proof
  show "is_heap_allocated (fst (string_grow_to n (s, m)))"
    using assms(1,2) by (simp add: string_grow_to_def Let_def split_beta is_heap_allocated_def)
  have "(unat (calculate_new_capacity (word_of_nat n)) + 1) mod 2 ^ 64
          = unat (calculate_new_capacity (word_of_nat n)) + 1"
    using calculate_new_capacity_below [OF assms(3)] by simp
  with events_grow_heap [OF assms(1,2), of m]
  show "events (snd (string_grow_to n (s, m))) =
           events m @
           [Allocate (unat (calculate_new_capacity (word_of_nat n)) + 1)
              (data_heap_ptr (fst (string_grow_to n (s, m)))),
            Memcpy (data_heap_ptr (fst (string_grow_to n (s, m)))) (data_heap_ptr s) (str_size s),
            Deallocate (data_heap_ptr s) (data_heap_capacity s + 1)]"
    by simp
qed

theorem grow_heap_allocates_copies_then_releases_witness:
  "is_heap_allocated (fst (string_from (replicate 30 97) 30 fresh_machine)) \<and>
   string_capacity (fst (string_from (replicate 30 97) 30 fresh_machine)) < 100 \<and>
   (100::nat) < 2 ^ 63 \<and>
   events (snd (string_grow_to 100 (string_from (replicate 30 97) 30 fresh_machine))) =
     [Allocate 31 1,
      Allocate 128
        (data_heap_ptr (fst (string_grow_to 100 (string_from (replicate 30 97) 30 fresh_machine)))),
      Memcpy
        (data_heap_ptr (fst (string_grow_to 100 (string_from (replicate 30 97) 30 fresh_machine))))
        1 30,
      Deallocate 1 64]"
proof -
  let ?s = "fst (string_from (replicate 30 97) 30 fresh_machine)"
  let ?m = "snd (string_from (replicate 30 97) 30 fresh_machine)"
  have h: "is_heap_allocated ?s"
    by (simp add: a30_string is_heap_allocated_def HEAP_ALLOCATED_FLAG_def)
  have c: "string_capacity ?s < 100"
    using h by (simp add: string_capacity_def) (simp add: a30_string)
  have b: "(100::nat) < 2 ^ 63" by simp
  from grow_heap_allocates_copies_then_releases [OF h c b, of ?m]
  show ?thesis using h c by (simp add: calculate_new_capacity_100) (simp add: a30_string)
qed

theorem grow_heap_release_first_counterexample:
  "is_heap_allocated (fst (string_from (replicate 30 97) 30 fresh_machine)) \<and>
   is_heap_allocated (fst (string_grow_to 100 (string_from (replicate 30 97) 30 fresh_machine))) \<and>
   events (snd (string_grow_to 100 (string_from (replicate 30 97) 30 fresh_machine))) =
     [Allocate 31 1, Allocate 128 2, Memcpy 2 1 30, Deallocate 1 64]"
  by (simp add: a30_grown) (simp add: a30_string is_heap_allocated_def HEAP_ALLOCATED_FLAG_def)

section \<open>Move construction and move assignment\<close>

text \<open>
  C7. After moving a string \<open>a\<close> into a new string \<open>b\<close>, or move-assigning an object
  \<open>other\<close> to a different object \<open>this\<close> whose buffer is not the buffer of \<open>other\<close>,
  the target has the content and size of the source, the source is empty, Inline, with
  its flags cleared, destroying the source changes nothing, and destroying both releases
  the buffer once.
\<close>

theorem move_leaves_source_empty:
  assumes "this \<noteq> other"
    and "is_heap_allocated (objs this) \<and> is_heap_allocated (objs other)
           \<longrightarrow> data_heap_ptr (objs this) \<noteq> data_heap_ptr (objs other)"
  shows "(let (b, a') = string_move a
          in string_bytes m b = string_bytes m a \<and> str_size b = str_size a \<and>
             str_size a' = 0 \<and> str_flags a' = 0 \<and> \<not> is_heap_allocated a' \<and>
             string_bytes m a' = [] \<and> string_destroy a' m = m \<and>
             (is_heap_allocated a \<longrightarrow>
                events (string_destroy b (string_destroy a' m))
                  = events m @ [Deallocate (data_heap_ptr a) (data_heap_capacity a + 1)])) \<and>
         (let (objs', m') = string_move_assign this other (objs, m)
          in string_bytes m' (objs' this) = string_bytes m (objs other) \<and>
             str_size (objs' this) = str_size (objs other) \<and>
             str_size (objs' other) = 0 \<and> str_flags (objs' other) = 0 \<and>
             \<not> is_heap_allocated (objs' other) \<and>
             string_bytes m' (objs' other) = [] \<and> string_destroy (objs' other) m' = m' \<and>
             (is_heap_allocated (objs other) \<longrightarrow>
                events (string_destroy (objs' this) (string_destroy (objs' other) m'))
                  = events m' @ [Deallocate (data_heap_ptr (objs other))
                                   (data_heap_capacity (objs other) + 1)]))"
proof (intro conjI)
  show "let (b, a') = string_move a
          in string_bytes m b = string_bytes m a \<and> str_size b = str_size a \<and>
             str_size a' = 0 \<and> str_flags a' = 0 \<and> \<not> is_heap_allocated a' \<and>
             string_bytes m a' = [] \<and> string_destroy a' m = m \<and>
             (is_heap_allocated a \<longrightarrow>
                events (string_destroy b (string_destroy a' m))
                  = events m @ [Deallocate (data_heap_ptr a) (data_heap_capacity a + 1)])"
    by (simp add: string_move_def string_bytes_def storage_def is_heap_allocated_def
        string_destroy_def events_deallocate)
next
  let ?t = "objs this" and ?o = "objs other"
  define m1 where "m1 = (if is_heap_allocated ?t then
                        deallocate_bytes_aligned (data_heap_ptr ?t)
                          (data_heap_capacity ?t + 1) preferred_alloc_alignment m
                      else m)"
  define t where "t = ?t\<lparr>str_size := str_size ?o, str_flags := str_flags ?o,
                          data_sso := data_sso ?o, data_heap_ptr := data_heap_ptr ?o,
                          data_heap_capacity := data_heap_capacity ?o\<rparr>"
  define r where "r = ?o\<lparr>str_size := 0, str_flags := 0, data_sso := (data_sso ?o)[0 := 0]\<rparr>"
  have res: "string_move_assign this other (objs, m) = (objs(this := t, other := r), m1)"
    using assms(1) by (simp add: string_move_assign_def Let_def m1_def t_def r_def)
  have ht: "is_heap_allocated t = is_heap_allocated ?o"
    by (simp add: t_def is_heap_allocated_def)
  have blk: "is_heap_allocated ?o \<Longrightarrow> block m1 (data_heap_ptr ?o) = block m (data_heap_ptr ?o)"
    using assms(2) by (simp add: m1_def block_after_deallocate)
  have "storage m1 t = storage m ?o"
    using blk by (simp add: storage_def ht) (simp add: t_def)
  then have bytes: "string_bytes m1 t = string_bytes m ?o"
    by (simp add: string_bytes_def t_def)
  have hr: "\<not> is_heap_allocated r" by (simp add: r_def is_heap_allocated_def)
  have "events (string_destroy t (string_destroy r m1))
          = events m1 @ [Deallocate (data_heap_ptr ?o) (data_heap_capacity ?o + 1)]"
    if "is_heap_allocated ?o"
    using that hr ht by (simp add: string_destroy_def events_deallocate) (simp add: t_def)
  then show "let (objs', m') = string_move_assign this other (objs, m)
          in string_bytes m' (objs' this) = string_bytes m (objs other) \<and>
             str_size (objs' this) = str_size (objs other) \<and>
             str_size (objs' other) = 0 \<and> str_flags (objs' other) = 0 \<and>
             \<not> is_heap_allocated (objs' other) \<and>
             string_bytes m' (objs' other) = [] \<and> string_destroy (objs' other) m' = m' \<and>
             (is_heap_allocated (objs other) \<longrightarrow>
                events (string_destroy (objs' this) (string_destroy (objs' other) m'))
                  = events m' @ [Deallocate (data_heap_ptr (objs other))
                                   (data_heap_capacity (objs other) + 1)])"
    using assms(1) bytes hr
    by (simp add: res) (simp add: t_def r_def string_bytes_def string_destroy_def)
qed

theorem move_leaves_source_empty_witness:
  "(0::nat) \<noteq> 1 \<and>
   (let objs = (\<lambda>_::nat. string_default fresh_machine)
                 (1 := fst (string_from (replicate 30 97) 30 fresh_machine));
        m = snd (string_from (replicate 30 97) 30 fresh_machine);
        (objs', m') = string_move_assign 0 1 (objs, m);
        (b, a') = string_move (objs 1)
    in \<not> is_heap_allocated (objs 0) \<and> is_heap_allocated (objs 1) \<and>
       string_bytes m' (objs' 0) = replicate 30 97 \<and> str_size (objs' 1) = 0 \<and>
       string_destroy (objs' 1) m' = m' \<and> events m' = [Allocate 31 1] \<and>
       string_bytes m b = replicate 30 97 \<and> str_size a' = 0 \<and> string_destroy a' m = m \<and>
       events (string_destroy b (string_destroy a' m)) = [Allocate 31 1, Deallocate 1 64])"
proof -
  let ?s = "fst (string_from (replicate 30 97) 30 fresh_machine)"
  let ?m = "snd (string_from (replicate 30 97) 30 fresh_machine)"
  let ?objs = "(\<lambda>_::nat. string_default fresh_machine)(1 := ?s)"
  have n: "\<not> is_heap_allocated (?objs 0)"
    by (simp add: string_default_def is_heap_allocated_def)
  have h: "is_heap_allocated ?s"
    by (simp add: a30_string is_heap_allocated_def HEAP_ALLOCATED_FLAG_def)
  have b: "string_bytes ?m ?s = replicate 30 97"
    using h by (simp add: string_bytes_def storage_def) (simp add: a30_string block_def)
  have e: "events (snd (string_move_assign 0 1 (?objs, ?m))) = [Allocate 31 1]"
    using n by (simp add: string_move_assign_def Let_def) (simp add: a30_string)
  have d: "events ?m = [Allocate 31 1]" "data_heap_ptr ?s = 1" "data_heap_capacity ?s = 63"
    by (simp_all add: a30_string)
  from move_leaves_source_empty
         [where this = 0 and other = 1 and objs = ?objs and m = ?m and a = ?s]
  show ?thesis using n h b e d by (auto simp: split_beta Let_def)
qed

section \<open>Bounds-checked access\<close>

text \<open>
  C8. \<^verbatim>\<open>at(pos)\<close> fails with \<^verbatim>\<open>std::out_of_range\<close> when the position exceeds the
  length, and for an index within the length it returns the byte stored at that index;
  on a string constructed from \<open>len\<close> bytes, that is the byte the constructor was
  given at that index. (At the position equal to the length, where the terminator is, it
  fails as well.)
\<close>

theorem at_bounds_checked:
  "(pos > str_size s \<longrightarrow> string_at pos s m = Inl (out_of_range ''fl::string::at'')) \<and>
   (pos < str_size s \<longrightarrow> string_at pos s m = Inr (string_bytes m s ! pos)) \<and>
   (pos = str_size s \<longrightarrow> string_at pos s m = Inl (out_of_range ''fl::string::at'')) \<and>
   (len \<le> length cstr \<longrightarrow>
      (let (s', m') = string_from cstr len m
       in (pos < len \<longrightarrow> string_at pos s' m' = Inr (cstr ! pos)) \<and>
          (pos \<ge> len \<longrightarrow> string_at pos s' m' = Inl (out_of_range ''fl::string::at''))))"
proof (intro conjI impI)
  assume len: "len \<le> length cstr"
  let ?s = "fst (string_from cstr len m)" and ?m = "snd (string_from cstr len m)"
  have "storage ?m ?s ! pos = cstr ! pos" if "pos < len"
  proof -
    have "storage ?m ?s ! pos = take len (storage ?m ?s) ! pos" using that by simp
    also have "\<dots> = take len cstr ! pos" by (simp only: string_from_content(2) [OF len])
    also have "\<dots> = cstr ! pos" using that by simp
    finally show ?thesis .
  qed
  then show "let (s', m') = string_from cstr len m
       in (pos < len \<longrightarrow> string_at pos s' m' = Inr (cstr ! pos)) \<and>
          (pos \<ge> len \<longrightarrow> string_at pos s' m' = Inl (out_of_range ''fl::string::at''))"
    by (simp add: split_beta string_at_def string_from_content(1) [OF len])
qed (simp_all add: string_at_def string_bytes_def)


theorem at_bounds_checked_witness:
  "string_at 5 (fst (string_from [97, 98, 99] 3 fresh_machine)) fresh_machine
     = Inl (out_of_range ''fl::string::at'') \<and>
   string_at 1 (fst (string_from [97, 98, 99] 3 fresh_machine)) fresh_machine = Inr 98 \<and>
   string_at 3 (fst (string_from [97, 98, 99] 3 fresh_machine)) fresh_machine
     = Inl (out_of_range ''fl::string::at'') \<and>
   string_at 29 (fst (string_from (replicate 30 97) 30 fresh_machine))
     (snd (string_from (replicate 30 97) 30 fresh_machine)) = Inr 97"
  using at_bounds_checked [where pos = 5 and m = fresh_machine and len = 3
      and cstr = "[97, 98, 99]" and s = "fst (string_from [97, 98, 99] 3 fresh_machine)"]
    at_bounds_checked [where pos = 1 and m = fresh_machine and len = 3
      and cstr = "[97, 98, 99]" and s = "fst (string_from [97, 98, 99] 3 fresh_machine)"]
    at_bounds_checked [where pos = 3 and m = fresh_machine and len = 3
      and cstr = "[97, 98, 99]" and s = "fst (string_from [97, 98, 99] 3 fresh_machine)"]
    at_bounds_checked [where pos = 29 and m = fresh_machine and len = 30
      and cstr = "replicate 30 97" and s = "fst (string_from [97, 98, 99] 3 fresh_machine)"]
  by (simp add: abc_string string_bytes_def storage_def is_heap_allocated_def split_beta)

section \<open>Position-taking mutators\<close>

text \<open>
  C2, as the code has it. When the position is greater than \<^verbatim>\<open>size()\<close>, insert, erase
  and replace at a position return normally and leave the string and the memory as they
  were; no failure is raised.
\<close>

theorem mutators_ignore_position_past_size:
  assumes "pos > str_size s"
  shows "string_insert pos cstr len (s, m) = Inr (s, m) \<and>
         string_erase pos len (s, m) = Inr (s, m) \<and>
         string_replace pos len cstr clen (s, m) = Inr (s, m)"
  using assms by (simp add: string_insert_def string_erase_def string_replace_def)

theorem mutators_ignore_position_past_size_witness:
  "5 > str_size (fst (string_from [97, 98, 99] 3 fresh_machine)) \<and>
   string_insert 5 [120] 1 (string_from [97, 98, 99] 3 fresh_machine)
     = Inr (string_from [97, 98, 99] 3 fresh_machine) \<and>
   string_erase 5 1 (string_from [97, 98, 99] 3 fresh_machine)
     = Inr (string_from [97, 98, 99] 3 fresh_machine) \<and>
   string_replace 5 1 [120] 1 (string_from [97, 98, 99] 3 fresh_machine)
     = Inr (string_from [97, 98, 99] 3 fresh_machine)"
  using mutators_ignore_position_past_size
          [where s = "fst (string_from [97, 98, 99] 3 fresh_machine)" and pos = 5
             and cstr = "[120]" and len = 1 and clen = 1 and m = fresh_machine]
  by (simp add: abc_string)

theorem mutators_no_out_of_range_counterexample:
  "5 > str_size (fst (string_from [97, 98, 99] 3 fresh_machine)) \<and>
   \<not> isl (string_insert 5 [120] 1 (string_from [97, 98, 99] 3 fresh_machine)) \<and>
   \<not> isl (string_erase 5 1 (string_from [97, 98, 99] 3 fresh_machine)) \<and>
   \<not> isl (string_replace 5 1 [120] 1 (string_from [97, 98, 99] 3 fresh_machine))"
  by (simp add: abc_string string_insert_def string_erase_def string_replace_def)

section \<open>Assignment into a heap buffer that is large enough\<close>

text \<open>
  C9. For a Heap-variant string whose buffer holds its capacity and the terminator,
  \<^verbatim>\<open>assign\<close> of \<open>len\<close> bytes with \<open>len\<close> at most the capacity, and copy assignment
  from another object whose size is at most the capacity, rewrite the buffer in place:
  the string holds the new bytes and a terminator, is still Heap-backed at the same
  address with the same capacity, and the allocator is not called.
\<close>

theorem assign_within_heap_capacity_in_place:
  assumes "is_heap_allocated (objs this)"
    and "data_heap_capacity (objs this) < length (block m (data_heap_ptr (objs this)))"
  shows "(len \<le> data_heap_capacity (objs this) \<and> len \<le> length cstr \<longrightarrow>
           (let (s', m') = string_assign cstr len (objs this, m)
            in string_bytes m' s' = take len cstr \<and> str_size s' = len \<and>
               storage m' s' ! len = 0 \<and> is_heap_allocated s' \<and>
               string_capacity s' = string_capacity (objs this) \<and>
               data_heap_ptr s' = data_heap_ptr (objs this) \<and>
               events m' = events m \<and> tls m' = tls m \<and> next_block m' = next_block m)) \<and>
         (this \<noteq> other \<and> str_size (objs other) \<le> data_heap_capacity (objs this) \<and>
          str_size (objs other) \<le> length (storage m (objs other)) \<longrightarrow>
           (let (objs', m') = string_copy_assign this other (objs, m)
            in string_bytes m' (objs' this) = string_bytes m (objs other) \<and>
               str_size (objs' this) = str_size (objs other) \<and>
               storage m' (objs' this) ! str_size (objs other) = 0 \<and>
               is_heap_allocated (objs' this) \<and>
               string_capacity (objs' this) = string_capacity (objs this) \<and>
               data_heap_ptr (objs' this) = data_heap_ptr (objs this) \<and>
               events m' = events m \<and> tls m' = tls m \<and> next_block m' = next_block m))"
proof (intro conjI impI)
  assume a: "len \<le> data_heap_capacity (objs this) \<and> len \<le> length cstr"
  obtain s' m' where r: "string_assign_impl cstr len (objs this, m) = (s', m')"
    by (cases "string_assign_impl cstr len (objs this, m)")
  from assign_impl_in_place [OF assms(1) _ _ assms(2) r] a r
  show "let (s', m') = string_assign cstr len (objs this, m)
        in string_bytes m' s' = take len cstr \<and> str_size s' = len \<and>
           storage m' s' ! len = 0 \<and> is_heap_allocated s' \<and>
           string_capacity s' = string_capacity (objs this) \<and>
           data_heap_ptr s' = data_heap_ptr (objs this) \<and>
           events m' = events m \<and> tls m' = tls m \<and> next_block m' = next_block m"
    by (simp add: string_assign_def)
next
  assume a: "this \<noteq> other \<and> str_size (objs other) \<le> data_heap_capacity (objs this) \<and>
          str_size (objs other) \<le> length (storage m (objs other))"
  obtain s' m' where r: "string_assign_impl (storage m (objs other)) (str_size (objs other))
                           (objs this, m) = (s', m')"
    by (cases "string_assign_impl (storage m (objs other)) (str_size (objs other)) (objs this, m)")
  from assign_impl_in_place [OF assms(1) _ _ assms(2) r] a r
  show "let (objs', m') = string_copy_assign this other (objs, m)
        in string_bytes m' (objs' this) = string_bytes m (objs other) \<and>
           str_size (objs' this) = str_size (objs other) \<and>
           storage m' (objs' this) ! str_size (objs other) = 0 \<and>
           is_heap_allocated (objs' this) \<and>
           string_capacity (objs' this) = string_capacity (objs this) \<and>
           data_heap_ptr (objs' this) = data_heap_ptr (objs this) \<and>
           events m' = events m \<and> tls m' = tls m \<and> next_block m' = next_block m"
    by (auto simp: string_copy_assign_def string_bytes_def)
qed

theorem assign_within_heap_capacity_in_place_witness:
  "is_heap_allocated (fst (string_from (replicate 30 97) 30 fresh_machine)) \<and>
   3 \<le> data_heap_capacity (fst (string_from (replicate 30 97) 30 fresh_machine)) \<and>
   (let (s', m') = string_assign [120, 121, 122] 3 (string_from (replicate 30 97) 30 fresh_machine)
    in string_bytes m' s' = [120, 121, 122] \<and> is_heap_allocated s' \<and>
       string_capacity s' = 63 \<and> events m' = [Allocate 31 1]) \<and>
   (let objs = (\<lambda>_::nat. fst (string_from [97, 98, 99] 3 fresh_machine))
                 (0 := fst (string_from (replicate 30 97) 30 fresh_machine));
        m = snd (string_from (replicate 30 97) 30 fresh_machine);
        (objs', m') = string_copy_assign 0 1 (objs, m)
    in str_size (objs 1) = 3 \<and>
       string_bytes m' (objs' 0) = [97, 98, 99] \<and> is_heap_allocated (objs' 0) \<and>
       string_capacity (objs' 0) = 63 \<and> events m' = [Allocate 31 1])"
proof -
  let ?s = "fst (string_from (replicate 30 97) 30 fresh_machine)"
  let ?m = "snd (string_from (replicate 30 97) 30 fresh_machine)"
  let ?abc = "fst (string_from [97, 98, 99] 3 fresh_machine)"
  let ?objs = "(\<lambda>_::nat. ?abc)(0 := ?s)"
  have h: "is_heap_allocated ?s"
    by (simp add: a30_string is_heap_allocated_def HEAP_ALLOCATED_FLAG_def)
  have b: "data_heap_capacity ?s < length (block ?m (data_heap_ptr ?s))"
    by (simp add: a30_string block_def)
  have c: "string_capacity ?s = 63" "events ?m = [Allocate 31 1]" "data_heap_capacity ?s = 63"
    using h by (simp_all add: string_capacity_def) (simp_all add: a30_string)
  have o: "str_size ?abc = 3" "string_bytes ?m ?abc = [97, 98, 99]" "length (storage ?m ?abc) = 24"
    by (simp_all add: abc_string string_bytes_def storage_def is_heap_allocated_def)
  have h': "is_heap_allocated (?objs 0)"
    and b': "data_heap_capacity (?objs 0) < length (block ?m (data_heap_ptr (?objs 0)))"
    using h b by simp_all
  from assign_within_heap_capacity_in_place
         [where objs = "\<lambda>_. ?s" and this = 0 and m = ?m and len = 3 and cstr = "[120, 121, 122]",
          OF h b]
    assign_within_heap_capacity_in_place
         [where objs = ?objs and this = 0 and other = 1 and m = ?m, OF h' b']
  show ?thesis using h c o by (simp add: split_beta Let_def)
qed

section \<open>Removing the last byte\<close>

text \<open>
  C10. \<^verbatim>\<open>pop_back()\<close> on an empty string changes nothing: size, buffers and memory
  stay as they were.
\<close>

theorem pop_back_on_empty_is_noop:
  assumes "str_size s = 0"
  shows "string_pop_back (s, m) = (s, m)"
  using assms by (simp add: string_pop_back_def)

theorem pop_back_on_empty_is_noop_witness:
  "str_size (string_default fresh_machine) = 0 \<and>
   string_pop_back (string_default fresh_machine, fresh_machine)
     = (string_default fresh_machine, fresh_machine)"
  using pop_back_on_empty_is_noop [of "string_default fresh_machine" fresh_machine]
  by (simp add: string_default_def)

section \<open>Search in the Two-Way tier\<close>

lemma find_upt_first:
  assumes "P k" and "a \<le> k" and "k < b" and "\<And>j. a \<le> j \<Longrightarrow> j < k \<Longrightarrow> \<not> P j"
  shows "List.find P [a ..< b] = Some k"
  using assms
proof (induction "k - a" arbitrary: a)
  case 0
  then have "a = k" by simp
  with 0 show ?case by (simp add: upt_conv_Cons)
next
  case (Suc d)
  then have "a < k" "a < b" by simp_all
  moreover from Suc have "\<not> P a" by simp
  moreover have "List.find P [Suc a ..< b] = Some k"
    using Suc by (intro Suc.hyps(1)) simp_all
  ultimately show ?case by (simp add: upt_conv_Cons)
qed

lemma needle_max_suffix: "max_suffix [97, 97, 97, 98, 98, 97, 97, 97, 97] 9 = (3, 6)"
  by (simp add: max_suffix_def max_suffix_loop.simps)

lemma needle_max_suffix_rev: "max_suffix_rev [97, 97, 97, 98, 98, 97, 97, 97, 97] 9 = (5, 1)"
  by (simp add: max_suffix_rev_def max_suffix_rev_loop.simps)

lemma haystack_nonperiodic_loop:
  "nonperiodic_loop
     (([98, 97, 97, 97, 98, 98, 97, 97, 97, 97, 97, 97, 97, 97, 97, 98, 98, 97, 97, 97, 97]
        @ replicate 65536 122) @ [0])
     [97, 97, 97, 98, 98, 97, 97, 97, 97] 9 5 65548 0 = Found 12"
  by (simp add: nonperiodic_loop.simps match_forward.simps nth_append)

lemma haystack_two_way_search:
  "two_way_search
     (([98, 97, 97, 97, 98, 98, 97, 97, 97, 97, 97, 97, 97, 97, 97, 98, 98, 97, 97, 97, 97]
        @ replicate 65536 122) @ [0])
     65557 [97, 97, 97, 98, 98, 97, 97, 97, 97] 9 = Some (Found 12)"
  unfolding two_way_search_def needle_max_suffix needle_max_suffix_rev
  by (simp add: memcmp_eq_def haystack_nonperiodic_loop del: append_assoc append.simps)

lemma haystack_string:
  "string_from
     ([98, 97, 97, 97, 98, 98, 97, 97, 97, 97, 97, 97, 97, 97, 97, 98, 98, 97, 97, 97, 97]
        @ replicate 65536 122) 65557 fresh_machine =
   (\<lparr>data_sso = replicate 24 0xCD, data_heap_ptr = 1, data_heap_capacity = 65557,
      str_size = 65557, str_flags = 1\<rparr>,
    \<lparr>tls = \<lparr>counts = (\<lambda>_. 0), slots = (\<lambda>_ _. 0)\<rparr>,
     blocks = [1 \<mapsto>
       ([98, 97, 97, 97, 98, 98, 97, 97, 97, 97, 97, 97, 97, 97, 97, 98, 98, 97, 97, 97, 97]
          @ replicate 65536 122) @ [0]],
     next_block = 2, junk = 0xCD, events = [Allocate 65558 1]\<rparr>)"
  by (simp add: string_from_def fits_in_sso_def SSO_THRESHOLD_def SSO_CAPACITY_def
    string_allocate_heap_exact_def allocate_bytes_aligned_def default_allocate_aligned_def
    pool_class_index_cases allocate_aligned_unpooled_def fresh_machine_def
    preferred_alloc_alignment_def pool_alloc_usable_capacity_def HEAP_ALLOCATED_FLAG_def
    write_block_def block_def copy_heap_hot_def memcpy_def list_update_append)

lemma haystack_brute_force:
  "brute_force_find
     ([98, 97, 97, 97, 98, 98, 97, 97, 97, 97, 97, 97, 97, 97, 97, 98, 98, 97, 97, 97, 97]
        @ replicate 65536 122)
     [97, 97, 97, 98, 98, 97, 97, 97, 97] 0 = Found 1"
proof -
  let ?h = "[98, 97, 97, 97, 98, 98, 97, 97, 97, 97, 97, 97, 97, 97, 97, 98, 98, 97, 97, 97, 97]
        @ replicate 65536 (122::byte)"
  let ?n = "[97, 97, 97, 98, 98, 97, 97, 97, 97] :: byte list"
  have "List.find (occurs_at ?h ?n) [0 ..< Suc (length ?h)] = Some 1"
    by (rule find_upt_first [where P = "occurs_at ?h ?n" and k = 1])
       (simp_all add: occurs_at_def)
  then show ?thesis by (simp add: brute_force_find_def del: append.simps)
qed

lemma haystack_find:
  "string_find [97, 97, 97, 98, 98, 97, 97, 97, 97] 0
     \<lparr>data_sso = replicate 24 0xCD, data_heap_ptr = 1, data_heap_capacity = 65557,
       str_size = 65557, str_flags = 1\<rparr>
     \<lparr>tls = \<lparr>counts = (\<lambda>_. 0), slots = (\<lambda>_ _. 0)\<rparr>,
      blocks = [1 \<mapsto>
        ([98, 97, 97, 97, 98, 98, 97, 97, 97, 97, 97, 97, 97, 97, 97, 98, 98, 97, 97, 97, 97]
           @ replicate 65536 122) @ [0]],
      next_block = 2, junk = 0xCD, events = [Allocate 65558 1]\<rparr>
   = Some (Found 12)"
proof -
  have len: "length [97, 97, 97, 98, 98, 97, 97, 97, 97 :: byte] = 9" by simp
  show ?thesis
    unfolding string_find_def Let_def len
    by (simp add: storage_def is_heap_allocated_def HEAP_ALLOCATED_FLAG_def block_def
        kTwoWayHaystackThreshold_def haystack_two_way_search del: append_assoc append.simps)
qed

text \<open>
  C1 at a failing input. The haystack is \<^verbatim>\<open>"baaabbaaaaaaaaabbaaaa"\<close> followed by 65536
  bytes \<^verbatim>\<open>'z'\<close>, the needle is \<^verbatim>\<open>"aaabbaaaa"\<close>, the start position is 0. The
  needle first occurs at index 1, which the brute-force scan returns;
  \<^verbatim>\<open>find\<close>, dispatching to the Two-Way matcher, returns 12.
\<close>

theorem find_two_way_tier_returns_later_occurrence:
  "(let haystack =
          [98, 97, 97, 97, 98, 98, 97, 97, 97, 97, 97, 97, 97, 97, 97, 98, 98, 97, 97, 97, 97]
            @ replicate 65536 122;
        needle = [97, 97, 97, 98, 98, 97, 97, 97, 97];
        (s, m) = string_from haystack 65557 fresh_machine
    in string_size s = 65557 \<and> string_bytes m s = haystack \<and>
       brute_force_find haystack needle 0 = Found 1 \<and>
       string_find needle 0 s m = Some (Found 12))"
  unfolding Let_def haystack_string haystack_brute_force prod.case haystack_find
  by (simp add: string_size_def string_bytes_def storage_def is_heap_allocated_def
      HEAP_ALLOCATED_FLAG_def block_def)

end
